theory Spec2Isabelle
  imports Main "HOL-Library.AList"
begin

text \<open>
  A shallow embedding of the OpenPubkey client sources. Two of the four source files carry
  behaviour that is verified here: client.go, with \<^verbatim>\<open>New\<close>, \<^verbatim>\<open>Auth\<close> and \<^verbatim>\<open>OidcAuth\<close>, and a
  source part without a file name that holds \<^verbatim>\<open>OidcClaims.UnmarshalJSON\<close>, \<^verbatim>\<open>VerifyPKToken\<close>,
  \<^verbatim>\<open>DiscoverPublicKey\<close>, \<^verbatim>\<open>ExtractClaim\<close> and \<^verbatim>\<open>parseJWTSegment\<close>. Both declare package
  \<^verbatim>\<open>client\<close>, at different revisions. The other two files are an example program and the
  accessors of a WebAuthn user.

  Conventions. A function that returns \<^verbatim>\<open>(T, error)\<close> returns \<open>error + T\<close>, with \<open>Inl\<close> the
  error; one that returns \<^verbatim>\<open>error\<close> returns \<open>error option\<close>, with \<open>None\<close> for nil. Calls into
  packages that are not among the sources are parameters, collected in records. The
  \<^verbatim>\<open>context.Context\<close> argument is left out: cancellation is not modelled.
\<close>

section \<open>Go values shared by both packages\<close>

text \<open>
  A Go \<^verbatim>\<open>[]byte\<close> and a Go \<^verbatim>\<open>string\<close> are both byte strings; a \<^typ>\<open>char\<close> is one byte.
\<close>

type_synonym bytes = string

text \<open>
  A Go \<^verbatim>\<open>error\<close>. \<open>Errorf fmt args w\<close> is \<^verbatim>\<open>fmt.Errorf(fmt, args...)\<close>: the format
  string as written in the source, the arguments printed by \<^verbatim>\<open>%s\<close>, \<^verbatim>\<open>%q\<close> and \<^verbatim>\<open>%T\<close> in
  order, and the error wrapped by \<^verbatim>\<open>%w\<close> if there is one. \<open>ErrNonGQUnsupported\<close> is the
  package variable of that name (compared by identity in the source). \<open>External\<close> is an
  error produced inside a library or a collaborator. \<open>Panic\<close> is not an error value: it is
  the outcome of a run-time panic (a failed single-value type assertion, an index out of
  range, a nil dereference), kept in the same type so that every way of not returning
  normally is a branch of the model.
\<close>

datatype error =
    ErrNonGQUnsupported
  | Errorf string "string list" "error option"
  | External string
  | Panic string

text \<open>
  What \<^verbatim>\<open>encoding/json\<close> stores in a Go \<^verbatim>\<open>any\<close>: nil, a bool, a number (kept as its
  literal), a string, a \<^verbatim>\<open>[]any\<close> or a \<^verbatim>\<open>map[string]any\<close>.
\<close>

datatype json =
    JNull
  | JBool bool
  | JNumber string
  | JString string
  | JArray "json list"
  | JObject "(string \<times> json) list"

text \<open>The dynamic type of an \<^verbatim>\<open>any\<close> as \<^verbatim>\<open>%T\<close> prints it.\<close>

fun go_type :: "json \<Rightarrow> string" where
  "go_type JNull = ''<nil>''"
| "go_type (JBool b) = ''bool''"
| "go_type (JNumber n) = ''float64''"
| "go_type (JString s) = ''string''"
| "go_type (JArray vs) = ''[]interface {}''"
| "go_type (JObject kvs) = ''map[string]interface {}''"

text \<open>The signature algorithm names the sources compare against.\<close>

definition RS256 :: string where
  "RS256 = ''RS256''"

definition GQ256 :: string where
  "GQ256 = ''GQ256''"

definition ES256 :: string where
  "ES256 = ''ES256''"

section \<open>The verification side (the unnamed source part that holds VerifyPKToken)\<close>

subsection \<open>Data\<close>

record OidcClaims =
  Issuer :: string
  Subject :: string
  Audience :: string
  Expiration :: int
  IssuedAt :: int
  Email :: string
  Nonce :: string
  Username :: string
  FirstName :: string
  LastName :: string

text \<open>\<^verbatim>\<open>jws.Headers\<close>, read through \<^verbatim>\<open>Algorithm()\<close> and \<^verbatim>\<open>KeyID()\<close>.\<close>

record Headers =
  hdr_Algorithm :: string
  hdr_KeyID :: string

text \<open>
  The library calls of the JWT codec, taken as parameters: \<^verbatim>\<open>jws.SplitCompact\<close>,
  \<^verbatim>\<open>util.Base64DecodeForJWT\<close>, and \<^verbatim>\<open>json.Unmarshal\<close> at the three target types the source
  uses it with (a \<^verbatim>\<open>map[string]any\<close>, a \<^verbatim>\<open>jws.Headers\<close>, and the auxiliary struct of
  \<^verbatim>\<open>OidcClaims.UnmarshalJSON\<close>, which yields the \<^verbatim>\<open>aud\<close> value as an \<^verbatim>\<open>any\<close> next to the
  claims filled in through the embedded alias).
\<close>

record jwt_lib =
  SplitCompact :: "bytes \<Rightarrow> error + (bytes \<times> bytes \<times> bytes)"
  Base64DecodeForJWT :: "bytes \<Rightarrow> error + bytes"
  Unmarshal_map :: "bytes \<Rightarrow> error + (string \<rightharpoonup> json)"
  Unmarshal_Headers :: "bytes \<Rightarrow> error + Headers"
  Unmarshal_aux :: "bytes \<Rightarrow> OidcClaims \<Rightarrow> error + (json \<times> OidcClaims)"

subsection \<open>OidcClaims.UnmarshalJSON\<close>

text \<open>\<^verbatim>\<open>strings.Join\<close>.\<close>

fun strings_Join :: "string list \<Rightarrow> string \<Rightarrow> string" where
  "strings_Join [] sep = []"
| "strings_Join [x] sep = x"
| "strings_Join (x # y # ys) sep = x @ sep @ strings_Join (y # ys) sep"

text \<open>
  The loop over the \<^verbatim>\<open>[]any\<close> audience: \<^verbatim>\<open>audList = append(audList, v.(string))\<close>. The
  single-value type assertion panics on an element that is not a string.
\<close>

fun audList_loop :: "json list \<Rightarrow> string list \<Rightarrow> error + string list" where
  "audList_loop [] audList = Inr audList"
| "audList_loop (v # t) audList =
     (case v of
        JString s \<Rightarrow> audList_loop t (audList @ [s])
      | _ \<Rightarrow> Inl (Panic ''interface conversion: interface {} is not string''))"

definition UnmarshalJSON :: "jwt_lib \<Rightarrow> OidcClaims \<Rightarrow> bytes \<Rightarrow> error + OidcClaims" where
  "UnmarshalJSON lib id0 data =
     (case Unmarshal_aux lib data id0 of
        Inl err \<Rightarrow> Inl err
      | Inr (aux_Audience, id1) \<Rightarrow>
          (case aux_Audience of
             JString t \<Rightarrow> Inr (id1\<lparr>Audience := t\<rparr>)
           | JArray t \<Rightarrow>
               (case audList_loop t [] of
                  Inl p \<Rightarrow> Inl p
                | Inr audList \<Rightarrow> Inr (id1\<lparr>Audience := strings_Join audList '',''\<rparr>))
           | _ \<Rightarrow> Inr (id1\<lparr>Audience := ''''\<rparr>)))"

subsection \<open>parseJWTSegment and ExtractClaim\<close>

text \<open>
  \<^verbatim>\<open>parseJWTSegment(segment, v)\<close>: the target \<open>v\<close> is given by the decoder for its type.
\<close>

definition parseJWTSegment :: "jwt_lib \<Rightarrow> (bytes \<Rightarrow> error + 'v) \<Rightarrow> bytes \<Rightarrow> error + 'v" where
  "parseJWTSegment lib unmarshal segment =
     (case Base64DecodeForJWT lib segment of
        Inl err \<Rightarrow> Inl (Errorf ''error decoding segment: %w'' [] (Some err))
      | Inr segmentJSON \<Rightarrow>
          (case unmarshal segmentJSON of
             Inl err \<Rightarrow> Inl (Errorf ''error parsing segment: %w'' [] (Some err))
           | Inr v \<Rightarrow> Inr v))"

definition ExtractClaim :: "jwt_lib \<Rightarrow> bytes \<Rightarrow> string \<Rightarrow> error + string" where
  "ExtractClaim lib idt claimName =
     (case SplitCompact lib idt of
        Inl err \<Rightarrow> Inl (Errorf ''failed to split/decode JWT: %w'' [] (Some err))
      | Inr (hdrB64, payloadB64, sigB64) \<Rightarrow>
          (case parseJWTSegment lib (Unmarshal_map lib) payloadB64 of
             Inl err \<Rightarrow> Inl err
           | Inr payload \<Rightarrow>
               (case payload claimName of
                  None \<Rightarrow> Inl (Errorf ''claim '%s' missing from payload'' [claimName] None)
                | Some claim \<Rightarrow>
                    (case claim of
                       JString claimStr \<Rightarrow> Inr claimStr
                     | _ \<Rightarrow>
                         Inl (Errorf ''expected claim '%s' to be a string, was %T''
                                [claimName, go_type claim] None)))))"

subsection \<open>PK Tokens, providers and VerifyPKToken\<close>

record rsa_PublicKey =
  rsa_N :: nat
  rsa_E :: nat

text \<open>
  A \<^verbatim>\<open>crypto.PublicKey\<close> is an \<^verbatim>\<open>any\<close>: either a \<^verbatim>\<open>*rsa.PublicKey\<close> or a value of another
  dynamic type, kept by the name \<^verbatim>\<open>%T\<close> prints for it.
\<close>

datatype PublicKey =
    RSAPublicKey rsa_PublicKey
  | OtherPublicKey string

text \<open>
  Modelled from the spec: the PK Token type of package \<^verbatim>\<open>pktoken\<close> (not among the
  sources). Section 6: three sections \<^verbatim>\<open>op\<close>, \<^verbatim>\<open>cic\<close> and optionally \<^verbatim>\<open>cos\<close>, each with the
  base64url fields \<^verbatim>\<open>protected\<close>, \<^verbatim>\<open>payload\<close> and \<^verbatim>\<open>signature\<close>. The source reads the fields
  \<^verbatim>\<open>pkt.Op\<close> and \<^verbatim>\<open>pkt.Cos\<close> (a pointer, compared with nil); everything else goes through
  methods.
\<close>

record Signature =
  sig_protected :: bytes
  sig_payload :: bytes
  sig_signature :: bytes

record PKToken =
  Op :: "Signature option"
  Cic :: "Signature option"
  Cos :: "Signature option"

text \<open>
  Modelled from the spec: the Client Instance Claims of package \<^verbatim>\<open>clientinstance\<close> (not
  among the sources). Section 3: a structure \<^verbatim>\<open>{upk, alg, rz, extra*}\<close>.
\<close>

record Claims =
  cic_upk :: string
  cic_alg :: string
  cic_rz :: string
  cic_extra :: "(string \<times> string) list"

text \<open>
  The methods of \<^verbatim>\<open>pktoken.PKToken\<close> and \<^verbatim>\<open>clientinstance.Claims\<close> and the function
  \<^verbatim>\<open>gq.OriginalJWTHeaders\<close> that VerifyPKToken calls. Their code is not among the sources,
  so they are parameters: an \<^verbatim>\<open>error\<close> result is \<open>None\<close> for nil, and
  \<^verbatim>\<open>ProviderAlgorithm() (alg, ok)\<close> is \<open>None\<close> when \<^verbatim>\<open>ok\<close> is false.
\<close>

record pktoken_ops =
  GetCicValues :: "PKToken \<Rightarrow> error + Claims"
  cic_Hash :: "Claims \<Rightarrow> error + bytes"
  Compact :: "PKToken \<Rightarrow> Signature option \<Rightarrow> error + bytes"
  ProviderAlgorithm :: "PKToken \<Rightarrow> string option"
  OriginalJWTHeaders :: "bytes \<Rightarrow> error + bytes"
  VerifyGQSig :: "PKToken \<Rightarrow> rsa_PublicKey \<Rightarrow> nat \<Rightarrow> error option"
  VerifyCicSig :: "PKToken \<Rightarrow> error option"
  VerifyCosignerSignature :: "PKToken \<Rightarrow> error option"

text \<open>
  The interface \<^verbatim>\<open>OpenIdProvider\<close> as this source part declares it (client.go declares an
  interface of the same name with other methods, modelled further down as
  \<open>OpenIdProvider\<close>). A value of the interface is the record of its methods.
\<close>

record OpenIdProvider_p1 =
  p1_Issuer :: string
  p1_RequestTokens :: "string \<Rightarrow> error + bytes"
  p1_PublicKey :: "Headers \<Rightarrow> error + PublicKey"
  p1_VerifyCICHash :: "bytes \<Rightarrow> string \<Rightarrow> error option"
  p1_VerifyNonGQSig :: "bytes \<Rightarrow> string \<Rightarrow> error option"

definition GQSecurityParameter :: nat where
  "GQSecurityParameter = 256"

text \<open>The body of \<^verbatim>\<open>case gq.GQ256:\<close> (lines 110 to 146).\<close>

definition VerifyPKToken_case_GQ256 ::
  "jwt_lib \<Rightarrow> pktoken_ops \<Rightarrow> PKToken \<Rightarrow> OpenIdProvider_p1 \<Rightarrow> bytes \<Rightarrow> bytes \<Rightarrow> error option" where
  "VerifyPKToken_case_GQ256 lib ops pkt provider idt commitment =
     (case OriginalJWTHeaders ops idt of
        Inl err \<Rightarrow> Some err
      | Inr origHeadersB64 \<Rightarrow>
          (case parseJWTSegment lib (Unmarshal_Headers lib) origHeadersB64 of
             Inl err \<Rightarrow> Some err
           | Inr origHeaders \<Rightarrow>
               if hdr_Algorithm origHeaders \<noteq> RS256
               then Some (Errorf ''expected original headers to contain RS256 alg, got %s''
                            [hdr_Algorithm origHeaders] None)
               else
                 (case p1_PublicKey provider origHeaders of
                    Inl err \<Rightarrow> Some (Errorf ''failed to get OP public key: %w'' [] (Some err))
                  | Inr pubKey \<Rightarrow>
                      (case pubKey of
                         OtherPublicKey ty \<Rightarrow>
                           Some (Errorf ''expected public key to be a *rsa.PublicKey, got %T''
                                   [ty] None)
                       | RSAPublicKey rsaPubKey \<Rightarrow>
                           (case VerifyGQSig ops pkt rsaPubKey GQSecurityParameter of
                              Some err \<Rightarrow>
                                Some (Errorf ''error verifying OP GQ signature on PK Token: %w''
                                        [] (Some err))
                            | None \<Rightarrow>
                                (case p1_VerifyCICHash provider idt commitment of
                                   Some err \<Rightarrow>
                                     Some (Errorf ''failed to verify CIC hash: %w'' [] (Some err))
                                 | None \<Rightarrow> None))))))"

text \<open>The body of \<^verbatim>\<open>case jwa.RS256:\<close> (lines 147 to 154).\<close>

definition VerifyPKToken_case_RS256 :: "OpenIdProvider_p1 \<Rightarrow> bytes \<Rightarrow> bytes \<Rightarrow> error option" where
  "VerifyPKToken_case_RS256 provider idt commitment =
     (case p1_VerifyNonGQSig provider idt commitment of
        Some err \<Rightarrow>
          if err = ErrNonGQUnsupported
          then Some (Errorf ''oidc provider doesn't support non-GQ signatures'' [] None)
          else Some (Errorf ''failed to verify signature from OIDC provider: %w'' [] (Some err))
      | None \<Rightarrow> None)"

text \<open>
  The \<^verbatim>\<open>switch alg\<close> of lines 109 to 155. It has the two cases above and no
  \<^verbatim>\<open>default\<close>: for any other algorithm the statement does nothing.
\<close>

definition VerifyPKToken_switch ::
  "jwt_lib \<Rightarrow> pktoken_ops \<Rightarrow> PKToken \<Rightarrow> OpenIdProvider_p1 \<Rightarrow> bytes \<Rightarrow> bytes \<Rightarrow> string \<Rightarrow> error option" where
  "VerifyPKToken_switch lib ops pkt provider idt commitment alg =
     (if alg = GQ256 then VerifyPKToken_case_GQ256 lib ops pkt provider idt commitment
      else if alg = RS256 then VerifyPKToken_case_RS256 provider idt commitment
      else None)"

text \<open>Lines 157 to 168: the CIC signature, then the cosigner signature if there is one.\<close>

definition VerifyPKToken_tail :: "pktoken_ops \<Rightarrow> PKToken \<Rightarrow> error option" where
  "VerifyPKToken_tail ops pkt =
     (case VerifyCicSig ops pkt of
        Some err \<Rightarrow> Some (Errorf ''error verifying CIC signature on PK Token: %w'' [] (Some err))
      | None \<Rightarrow>
          (case Cos pkt of
             None \<Rightarrow> None
           | Some cos \<Rightarrow>
               (case VerifyCosignerSignature ops pkt of
                  Some err \<Rightarrow>
                    Some (Errorf ''error verify cosigner signature on PK Token: %w'' [] (Some err))
                | None \<Rightarrow> None)))"

definition VerifyPKToken ::
  "jwt_lib \<Rightarrow> pktoken_ops \<Rightarrow> PKToken \<Rightarrow> OpenIdProvider_p1 \<Rightarrow> error option" where
  "VerifyPKToken lib ops pkt provider =
     (case GetCicValues ops pkt of
        Inl err \<Rightarrow> Some err
      | Inr cic \<Rightarrow>
          (case cic_Hash ops cic of
             Inl err \<Rightarrow> Some err
           | Inr commitment \<Rightarrow>
               (case Compact ops pkt (Op pkt) of
                  Inl err \<Rightarrow> Some err
                | Inr idt \<Rightarrow>
                    (case ExtractClaim lib idt ''iss'' of
                       Inl err \<Rightarrow> Some err
                     | Inr issuer \<Rightarrow>
                         if issuer \<noteq> p1_Issuer provider
                         then Some (Errorf ''expected token to have issuer %s, got %s''
                                      [p1_Issuer provider, issuer] None)
                         else
                           (case ProviderAlgorithm ops pkt of
                              None \<Rightarrow> Some (Errorf ''provider algorithm type missing'' [] None)
                            | Some alg \<Rightarrow>
                                (case VerifyPKToken_switch lib ops pkt provider idt commitment alg of
                                   Some err \<Rightarrow> Some err
                                 | None \<Rightarrow> VerifyPKToken_tail ops pkt))))))"

subsection \<open>DiscoverPublicKey\<close>

text \<open>
  A key of a JWKS as \<^verbatim>\<open>jwk.Key\<close> shows it: \<^verbatim>\<open>KeyID()\<close>, \<^verbatim>\<open>Algorithm()\<close> (the \<^verbatim>\<open>alg\<close> member, empty
  when absent) and the key material, which is independent of \<^verbatim>\<open>alg\<close>: an RSA public key,
  or material of another kind named by its Go type.
\<close>

datatype jwk_material =
    RSA_public rsa_PublicKey
  | Other_material string

record JWK =
  jwk_KeyID :: string
  jwk_Algorithm :: string
  jwk_key :: jwk_material

record DiscoveryConfiguration =
  JwksURI :: string

text \<open>The two network calls, \<^verbatim>\<open>oidcclient.Discover\<close> and \<^verbatim>\<open>jwk.Fetch\<close>, as parameters.\<close>

record oidc_net =
  Discover :: "string \<Rightarrow> error + DiscoveryConfiguration"
  Fetch :: "string \<Rightarrow> error + JWK list"

text \<open>\<^verbatim>\<open>jwks.LookupKeyID(kid)\<close>: the first key of the set with that key id.\<close>

definition LookupKeyID :: "JWK list \<Rightarrow> string \<Rightarrow> JWK option" where
  "LookupKeyID jwks kid = find (\<lambda>key. jwk_KeyID key = kid) jwks"

text \<open>
  \<^verbatim>\<open>key.Raw(pubKey)\<close> with \<^verbatim>\<open>pubKey\<close> a \<^verbatim>\<open>*rsa.PublicKey\<close>: the library assigns the raw key if it
  is an RSA public key and returns an error for any other material.
\<close>

definition Raw_rsa :: "JWK \<Rightarrow> error + rsa_PublicKey" where
  "Raw_rsa key =
     (case jwk_key key of
        RSA_public k \<Rightarrow> Inr k
      | Other_material ty \<Rightarrow> Inl (External (''cannot assign '' @ ty @ '' to *rsa.PublicKey'')))"

definition DiscoverPublicKey :: "oidc_net \<Rightarrow> Headers \<Rightarrow> string \<Rightarrow> error + PublicKey" where
  "DiscoverPublicKey net headers issuer =
     (case Discover net issuer of
        Inl err \<Rightarrow> Inl (Errorf ''failed to call OIDC discovery endpoint: %w'' [] (Some err))
      | Inr discConf \<Rightarrow>
          (case Fetch net (JwksURI discConf) of
             Inl err \<Rightarrow> Inl (Errorf ''failed to fetch to JWKS: %w'' [] (Some err))
           | Inr jwks \<Rightarrow>
               (let kid = hdr_KeyID headers in
                case LookupKeyID jwks kid of
                  None \<Rightarrow> Inl (Errorf ''key %q isn't in JWKS'' [kid] None)
                | Some key \<Rightarrow>
                    if jwk_Algorithm key \<noteq> RS256
                    then Inl (Errorf
                           ''expected alg to be RS256 in JWK with kid %q for OP %q, got %q''
                           [kid, issuer, jwk_Algorithm key] None)
                    else
                      (case Raw_rsa key of
                         Inl err \<Rightarrow> Inl (Errorf ''failed to decode public key: %w'' [] (Some err))
                       | Inr pubKey \<Rightarrow> Inr (RSAPublicKey pubKey)))))"

subsection \<open>A reference codec for the worked examples\<close>

text \<open>
  The theorems about ExtractClaim and VerifyPKToken hold for every \<open>jwt_lib\<close>. The worked
  examples run them on token bytes, and for that they need one library instance. It
  follows the libraries' documented behaviour on the inputs the examples use:
  \<^verbatim>\<open>jws.SplitCompact\<close> splits at the two periods of a compact serialization;
  base64url without padding is decoded strictly; the JSON reader covers objects, arrays,
  strings without escape sequences, number literals and \<^verbatim>\<open>true\<close>, \<^verbatim>\<open>false\<close>, \<^verbatim>\<open>null\<close>, and
  reports anything else as a syntax error.
\<close>

fun split_on :: "char \<Rightarrow> string \<Rightarrow> string list" where
  "split_on c [] = [[]]"
| "split_on c (x # xs) =
     (case split_on c xs of
        [] \<Rightarrow> [[x]]
      | p # ps \<Rightarrow> if x = c then [] # p # ps else (x # p) # ps)"

definition ref_SplitCompact :: "bytes \<Rightarrow> error + (bytes \<times> bytes \<times> bytes)" where
  "ref_SplitCompact src =
     (case split_on (CHR ''.'') src of
        [protected, payload, signature] \<Rightarrow> Inr (protected, payload, signature)
      | _ \<Rightarrow> Inl (External ''invalid number of segments''))"

definition b64url_alphabet :: string where
  "b64url_alphabet = ''ABCDEFGHIJKLMNOPQRSTUVWXYZabcdefghijklmnopqrstuvwxyz0123456789-_''"

fun index_of :: "char \<Rightarrow> string \<Rightarrow> nat \<Rightarrow> nat option" where
  "index_of c [] i = None"
| "index_of c (x # xs) i = (if c = x then Some i else index_of c xs (Suc i))"

fun sextets :: "string \<Rightarrow> nat list option" where
  "sextets [] = Some []"
| "sextets (c # cs) =
     (case index_of c b64url_alphabet 0 of
        None \<Rightarrow> None
      | Some v \<Rightarrow> (case sextets cs of None \<Rightarrow> None | Some vs \<Rightarrow> Some (v # vs)))"

fun octets :: "nat list \<Rightarrow> nat list option" where
  "octets (a # b # c # d # rest) =
     (case octets rest of
        None \<Rightarrow> None
      | Some bs \<Rightarrow> Some ((a * 4 + b div 16) # ((b mod 16) * 16 + c div 4) # ((c mod 4) * 64 + d) # bs))"
| "octets [a, b, c] =
     (if c mod 4 = 0 then Some [a * 4 + b div 16, (b mod 16) * 16 + c div 4] else None)"
| "octets [a, b] = (if b mod 16 = 0 then Some [a * 4 + b div 16] else None)"
| "octets [a] = None"
| "octets [] = Some []"

definition ref_Base64DecodeForJWT :: "bytes \<Rightarrow> error + bytes" where
  "ref_Base64DecodeForJWT src =
     (case sextets src of
        None \<Rightarrow> Inl (External ''illegal base64 data'')
      | Some vs \<Rightarrow>
          (case octets vs of
             None \<Rightarrow> Inl (External ''illegal base64 data'')
           | Some bs \<Rightarrow> Inr (map char_of bs)))"

definition is_ws :: "char \<Rightarrow> bool" where
  "is_ws c = (c = CHR '' '' \<or> c = CHR 0x09 \<or> c = CHR 0x0A \<or> c = CHR 0x0D)"

definition skip_ws :: "string \<Rightarrow> string" where
  "skip_ws s = dropWhile is_ws s"

definition is_number_char :: "char \<Rightarrow> bool" where
  "is_number_char c = (c \<in> set ''0123456789+-.eE'')"

text \<open>The characters of a string after its opening quote, up to the closing quote.\<close>

fun read_string :: "string \<Rightarrow> string \<Rightarrow> (string \<times> string) option" where
  "read_string acc [] = None"
| "read_string acc (c # cs) =
     (if c = CHR 0x22 then Some (acc, cs)
      else if c = CHR 0x5C then None
      else read_string (acc @ [c]) cs)"

definition strip_prefix :: "string \<Rightarrow> string \<Rightarrow> string option" where
  "strip_prefix p s = (if take (length p) s = p then Some (drop (length p) s) else None)"

text \<open>
  A recursive-descent reader. The first argument bounds the number of nested calls; the
  length of the input is always enough, since every call consumes a character.
\<close>

fun read_value :: "nat \<Rightarrow> string \<Rightarrow> (json \<times> string) option"
  and read_elements :: "nat \<Rightarrow> json list \<Rightarrow> string \<Rightarrow> (json list \<times> string) option"
  and read_members :: "nat \<Rightarrow> (string \<times> json) list \<Rightarrow> string \<Rightarrow> ((string \<times> json) list \<times> string) option"
where
  "read_value 0 s = None"
| "read_value (Suc n) s =
     (case skip_ws s of
        [] \<Rightarrow> None
      | c # r \<Rightarrow>
          if c = CHR 0x22 then
            (case read_string [] r of
               None \<Rightarrow> None
             | Some (str, r') \<Rightarrow> Some (JString str, r'))
          else if c = CHR ''['' then
            (case strip_prefix '']'' (skip_ws r) of
               Some r' \<Rightarrow> Some (JArray [], r')
             | None \<Rightarrow>
                 (case read_elements n [] r of
                    None \<Rightarrow> None
                  | Some (vs, r') \<Rightarrow> Some (JArray vs, r')))
          else if c = CHR ''{'' then
            (case strip_prefix ''}'' (skip_ws r) of
               Some r' \<Rightarrow> Some (JObject [], r')
             | None \<Rightarrow>
                 (case read_members n [] r of
                    None \<Rightarrow> None
                  | Some (kvs, r') \<Rightarrow> Some (JObject kvs, r')))
          else if is_number_char c then
            Some (JNumber (takeWhile is_number_char (c # r)), dropWhile is_number_char (c # r))
          else
            (case strip_prefix ''true'' (c # r) of
               Some r' \<Rightarrow> Some (JBool True, r')
             | None \<Rightarrow>
                 (case strip_prefix ''false'' (c # r) of
                    Some r' \<Rightarrow> Some (JBool False, r')
                  | None \<Rightarrow>
                      (case strip_prefix ''null'' (c # r) of
                         Some r' \<Rightarrow> Some (JNull, r')
                       | None \<Rightarrow> None))))"
| "read_elements 0 acc s = None"
| "read_elements (Suc n) acc s =
     (case read_value n s of
        None \<Rightarrow> None
      | Some (v, r) \<Rightarrow>
          (case skip_ws r of
             [] \<Rightarrow> None
           | c # r' \<Rightarrow>
               if c = CHR '','' then read_elements n (acc @ [v]) r'
               else if c = CHR '']'' then Some (acc @ [v], r')
               else None))"
| "read_members 0 acc s = None"
| "read_members (Suc n) acc s =
     (case strip_prefix [CHR 0x22] (skip_ws s) of
        None \<Rightarrow> None
      | Some r0 \<Rightarrow>
          (case read_string [] r0 of
             None \<Rightarrow> None
           | Some (k, r1) \<Rightarrow>
               (case strip_prefix '':'' (skip_ws r1) of
                  None \<Rightarrow> None
                | Some r2 \<Rightarrow>
                    (case read_value n r2 of
                       None \<Rightarrow> None
                     | Some (v, r3) \<Rightarrow>
                         (case skip_ws r3 of
                            [] \<Rightarrow> None
                          | c # r4 \<Rightarrow>
                              if c = CHR '','' then read_members n (acc @ [(k, v)]) r4
                              else if c = CHR ''}'' then Some (acc @ [(k, v)], r4)
                              else None)))))"

definition read_json :: "bytes \<Rightarrow> json option" where
  "read_json data =
     (case read_value (Suc (length data)) data of
        None \<Rightarrow> None
      | Some (v, r) \<Rightarrow> if skip_ws r = [] then Some v else None)"

text \<open>
  \<^verbatim>\<open>json.Unmarshal\<close> into a \<^verbatim>\<open>map[string]any\<close>: an object fills the map (a repeated key keeps
  its last value), \<^verbatim>\<open>null\<close> leaves it empty, any other value is an error.
\<close>

definition ref_Unmarshal_map :: "bytes \<Rightarrow> error + (string \<rightharpoonup> json)" where
  "ref_Unmarshal_map data =
     (case read_json data of
        None \<Rightarrow> Inl (External ''invalid character'')
      | Some (JObject kvs) \<Rightarrow> Inr (map_of (rev kvs))
      | Some JNull \<Rightarrow> Inr Map.empty
      | Some v \<Rightarrow> Inl (External ''json: cannot unmarshal into Go value of type map[string]interface {}''))"

text \<open>A string member of a decoded object: absent and \<^verbatim>\<open>null\<close> leave the field as it was.\<close>

definition string_field :: "(string \<rightharpoonup> json) \<Rightarrow> string \<Rightarrow> string \<Rightarrow> error + string" where
  "string_field obj k old =
     (case obj k of
        None \<Rightarrow> Inr old
      | Some JNull \<Rightarrow> Inr old
      | Some (JString s) \<Rightarrow> Inr s
      | Some v \<Rightarrow> Inl (External (''json: cannot unmarshal '' @ go_type v @ '' into Go struct field of type string'')))"

definition ref_Unmarshal_Headers :: "bytes \<Rightarrow> error + Headers" where
  "ref_Unmarshal_Headers data =
     (case ref_Unmarshal_map data of
        Inl err \<Rightarrow> Inl err
      | Inr obj \<Rightarrow>
          (case string_field obj ''alg'' [] of
             Inl err \<Rightarrow> Inl err
           | Inr a \<Rightarrow>
               (case string_field obj ''kid'' [] of
                  Inl err \<Rightarrow> Inl err
                | Inr k \<Rightarrow> Inr \<lparr>hdr_Algorithm = a, hdr_KeyID = k\<rparr>)))"

text \<open>
  \<^verbatim>\<open>json.Unmarshal(data, &aux)\<close> of \<^verbatim>\<open>OidcClaims.UnmarshalJSON\<close>, for payloads whose \<^verbatim>\<open>exp\<close> and
  \<^verbatim>\<open>iat\<close> are absent (the examples do not use them): \<^verbatim>\<open>aud\<close> goes to the \<^verbatim>\<open>any\<close> field
  (nil when absent), the string claims go to the fields of the same JSON name.
\<close>

definition ref_Unmarshal_aux :: "bytes \<Rightarrow> OidcClaims \<Rightarrow> error + (json \<times> OidcClaims)" where
  "ref_Unmarshal_aux data id0 =
     (case ref_Unmarshal_map data of
        Inl err \<Rightarrow> Inl err
      | Inr obj \<Rightarrow>
          (if obj ''exp'' \<noteq> None \<or> obj ''iat'' \<noteq> None
           then Inl (External ''numeric claims are outside the reference codec'')
           else
             (case string_field obj ''iss'' (Issuer id0) of Inl err \<Rightarrow> Inl err | Inr iss \<Rightarrow>
             (case string_field obj ''sub'' (Subject id0) of Inl err \<Rightarrow> Inl err | Inr sub \<Rightarrow>
             (case string_field obj ''email'' (Email id0) of Inl err \<Rightarrow> Inl err | Inr email \<Rightarrow>
             (case string_field obj ''nonce'' (Nonce id0) of Inl err \<Rightarrow> Inl err | Inr nonce \<Rightarrow>
             (case string_field obj ''preferred_username'' (Username id0) of Inl err \<Rightarrow> Inl err | Inr un \<Rightarrow>
             (case string_field obj ''given_name'' (FirstName id0) of Inl err \<Rightarrow> Inl err | Inr gn \<Rightarrow>
             (case string_field obj ''family_name'' (LastName id0) of Inl err \<Rightarrow> Inl err | Inr fn \<Rightarrow>
                Inr (case obj ''aud'' of None \<Rightarrow> JNull | Some v \<Rightarrow> v,
                     id0\<lparr>Issuer := iss, Subject := sub, Email := email, Nonce := nonce,
                         Username := un, FirstName := gn, LastName := fn\<rparr>))))))))))"

definition ref_lib :: jwt_lib where
  "ref_lib =
     \<lparr>SplitCompact = ref_SplitCompact,
      Base64DecodeForJWT = ref_Base64DecodeForJWT,
      Unmarshal_map = ref_Unmarshal_map,
      Unmarshal_Headers = ref_Unmarshal_Headers,
      Unmarshal_aux = ref_Unmarshal_aux\<rparr>"

section \<open>The client (client.go)\<close>

subsection \<open>Data\<close>

text \<open>
  The client handles ID-token bytes only through calls into other packages, so the model
  leaves their representation open: the type variable \<open>'b\<close> stands for \<^verbatim>\<open>[]byte\<close> and \<open>'p\<close>
  for \<^verbatim>\<open>pktoken.PKToken\<close>. A \<^verbatim>\<open>crypto.Signer\<close> is a handle on a key pair, and a
  \<^verbatim>\<open>jwa.KeyAlgorithm\<close> is its name; both are interfaces and may be nil (\<open>None\<close>).
\<close>

datatype crypto_Signer = Signer nat

text \<open>
  The interface \<^verbatim>\<open>OpenIdProvider\<close> of client.go as the record of its methods. The
  interface \<^verbatim>\<open>BrowserOpenIdProvider\<close> adds \<^verbatim>\<open>HookHTTPSession\<close>; whether the dynamic type of an
  OP has that method is what the type assertion \<^verbatim>\<open>o.Op.(BrowserOpenIdProvider)\<close> tests.
\<close>

record 'b OpenIdProvider =
  op_RequestTokens :: "string \<Rightarrow> error + 'b"
  op_Issuer :: string
  op_CommitmentClaim :: string
  op_HookHTTPSession :: bool

record CosignerProvider =
  cosP_Issuer :: string
  cosP_CallbackPath :: string

text \<open>
  The values of package \<^verbatim>\<open>verifier\<close> that \<^verbatim>\<open>New\<close> builds. The package is not among the
  sources; each constructor call is kept as the term that names it, so nothing is
  assumed about what the constructors compute.
\<close>

datatype ProviderVerifierOpts = ProviderVerifierOpts_zero

datatype CosignerVerifierOpts = CosignerVerifierOpts_zero

datatype ProviderVerifier = NewProviderVerifier string string ProviderVerifierOpts

datatype CosignerVerifier = NewCosignerVerifier string CosignerVerifierOpts

datatype VerifierOpts = WithCosignerVerifiers "CosignerVerifier list"

datatype Check = GQOnly | OtherCheck string

text \<open>
  What a \<^verbatim>\<open>PKTokenVerifier\<close> interface value can point to: a \<^verbatim>\<open>*verifier.Verifier\<close> built by
  \<^verbatim>\<open>verifier.New(providerVerifier, opts...)\<close>, or an implementation of the caller's own.
\<close>

datatype verifier_object =
    Verifier ProviderVerifier "VerifierOpts list"
  | CustomVerifier string

text \<open>A \<^verbatim>\<open>*memguard.LockedBuffer\<close> points to a buffer that holds bytes until it is destroyed.\<close>

record 'b LockedBuffer =
  contents :: 'b
  alive :: bool

text \<open>
  The state the client's functions act on. Pointers are indices: \<open>buffers\<close> holds every
  locked buffer allocated so far, \<open>verifiers\<close> every verifier object. \<open>requests\<close> logs the
  commitments \<^verbatim>\<open>RequestTokens\<close> was called with and \<open>hooks\<close> counts the handlers registered
  through \<^verbatim>\<open>HookHTTPSession\<close>.
\<close>

record 'b world =
  buffers :: "'b LockedBuffer list"
  verifiers :: "verifier_object list"
  requests :: "string list"
  hooks :: nat

record 'b OpkClient =
  client_Op :: "'b OpenIdProvider"
  client_cosP :: "CosignerProvider option"
  client_signer :: "crypto_Signer option"
  client_alg :: "string option"
  client_signGQ :: bool
  client_verifier :: "nat option"

text \<open>\<^verbatim>\<open>jws.Message\<close>: the protected headers of its signatures, and its payload.\<close>

record jws_Message =
  msg_Signatures :: "Headers list"
  msg_Payload :: bytes

datatype SignerVerifier = SignerVerifier256 rsa_PublicKey

text \<open>
  The calls client.go makes into packages that are not among the sources, as parameters:
  \<^verbatim>\<open>util.GenKeyPair\<close>, \<^verbatim>\<open>jwk.PublicKeyOf\<close>, \<^verbatim>\<open>jwkKey.Set(jwk.AlgorithmKey, alg)\<close>,
  \<^verbatim>\<open>clientinstance.NewClaims\<close>, \<^verbatim>\<open>cic.Hash\<close>, \<^verbatim>\<open>cic.Sign\<close>, \<^verbatim>\<open>jws.Parse\<close>, \<^verbatim>\<open>json.Unmarshal\<close> into
  the struct with the one field \<^verbatim>\<open>iss\<close>, \<^verbatim>\<open>verifier.DiscoverProviderPublicKey\<close>,
  \<^verbatim>\<open>gq.New256SignerVerifier\<close>, \<^verbatim>\<open>sv.SignJWT\<close>, \<^verbatim>\<open>pktoken.New\<close>, \<^verbatim>\<open>pkt.AddJKTHeader\<close> (which returns
  the token it updated), \<^verbatim>\<open>VerifyPKToken\<close> of the object a verifier pointer points to, and
  \<^verbatim>\<open>cosP.RequestToken\<close>. \<open>nil_bytes\<close> is what \<^verbatim>\<open>Bytes()\<close> gives for a destroyed buffer.
\<close>

record ('b, 'p) client_env =
  util_GenKeyPair :: "string \<Rightarrow> error + crypto_Signer"
  jwk_PublicKeyOf :: "crypto_Signer option \<Rightarrow> error + JWK"
  jwk_Set_alg :: "JWK \<Rightarrow> string option \<Rightarrow> error + JWK"
  clientinstance_NewClaims :: "JWK \<Rightarrow> (string \<rightharpoonup> json) \<Rightarrow> error + Claims"
  Claims_Hash :: "Claims \<Rightarrow> error + bytes"
  Claims_Sign :: "Claims \<Rightarrow> crypto_Signer option \<Rightarrow> string option \<Rightarrow> 'b \<Rightarrow> error + 'b"
  jws_Parse :: "'b \<Rightarrow> error + jws_Message"
  json_Unmarshal_iss :: "bytes \<Rightarrow> error + string"
  verifier_DiscoverProviderPublicKey :: "string \<Rightarrow> string \<Rightarrow> error + JWK"
  gq_New256SignerVerifier :: "rsa_PublicKey \<Rightarrow> error + SignerVerifier"
  sv_SignJWT :: "SignerVerifier \<Rightarrow> 'b \<Rightarrow> error + 'b"
  pktoken_New :: "'b \<Rightarrow> 'b \<Rightarrow> error + 'p"
  pkt_AddJKTHeader :: "'p \<Rightarrow> JWK \<Rightarrow> error + 'p"
  verifier_VerifyPKToken :: "verifier_object \<Rightarrow> 'p \<Rightarrow> Check list \<Rightarrow> error option"
  cosP_RequestToken :: "CosignerProvider \<Rightarrow> crypto_Signer option \<Rightarrow> 'p \<Rightarrow> error + 'p"
  nil_bytes :: 'b

subsection \<open>Client options and New\<close>

text \<open>
  A \<^verbatim>\<open>ClientOpts\<close> is a function that updates the client it is given; through the pointer
  the update is visible to \<^verbatim>\<open>New\<close>, so the model passes the client through.
\<close>

type_synonym 'b ClientOpts = "'b OpkClient \<Rightarrow> 'b OpkClient"

definition WithSigner :: "crypto_Signer option \<Rightarrow> string option \<Rightarrow> 'b ClientOpts" where
  "WithSigner signer alg = (\<lambda>o1. o1\<lparr>client_signer := signer, client_alg := alg\<rparr>)"

definition WithSignGQ :: "bool \<Rightarrow> 'b ClientOpts" where
  "WithSignGQ signGQ = (\<lambda>o1. o1\<lparr>client_signGQ := signGQ\<rparr>)"

definition WithCosignerProvider :: "CosignerProvider option \<Rightarrow> 'b ClientOpts" where
  "WithCosignerProvider cosP = (\<lambda>o1. o1\<lparr>client_cosP := cosP\<rparr>)"

definition WithCustomVerifier :: "nat option \<Rightarrow> 'b ClientOpts" where
  "WithCustomVerifier verifier = (\<lambda>o1. o1\<lparr>client_verifier := verifier\<rparr>)"

text \<open>
  \<^verbatim>\<open>verifier.New(providerVerifier, opts...)\<close> allocates a new verifier object and returns the
  pointer to it.
\<close>

definition verifier_New :: "ProviderVerifier \<Rightarrow> VerifierOpts list \<Rightarrow> 'b world \<Rightarrow> nat \<times> 'b world" where
  "verifier_New providerVerifier opts st =
     (length (verifiers st), st\<lparr>verifiers := verifiers st @ [Verifier providerVerifier opts]\<rparr>)"

text \<open>Lines 139 to 145: the verifier of the client under construction.\<close>

definition New_verifier :: "'b OpenIdProvider \<Rightarrow> 'b OpkClient \<Rightarrow> 'b world \<Rightarrow> 'b OpkClient \<times> 'b world" where
  "New_verifier op client st =
     (let providerVerifier =
            NewProviderVerifier (op_Issuer op) (op_CommitmentClaim op) ProviderVerifierOpts_zero;
          (client1, st1) =
            (case client_cosP client of
               Some cosP \<Rightarrow>
                 (let cosignerVerifier = NewCosignerVerifier (cosP_Issuer cosP) CosignerVerifierOpts_zero;
                      (v, st') = verifier_New providerVerifier [WithCosignerVerifiers [cosignerVerifier]] st
                  in (client\<lparr>client_verifier := Some v\<rparr>, st'))
             | None \<Rightarrow> (client, st));
          (v, st2) = verifier_New providerVerifier [] st1
      in (client1\<lparr>client_verifier := Some v\<rparr>, st2))"

definition New ::
  "('b, 'p) client_env \<Rightarrow> 'b OpenIdProvider \<Rightarrow> 'b ClientOpts list \<Rightarrow> 'b world \<Rightarrow>
     (error + 'b OpkClient) \<times> 'b world" where
  "New env op opts st =
     (let client0 = \<lparr>client_Op = op, client_cosP = None, client_signer = None, client_alg = None,
                     client_signGQ = False, client_verifier = None\<rparr>;
          client = fold (\<lambda>applyOpt c. applyOpt c) opts client0
      in if client_alg client = None \<and> client_signer client \<noteq> None
         then (Inl (Errorf ''signer specified but alg is nil, must specify alg of signer'' [] None), st)
         else
           (case
              (if client_signer client = None
               then
                 (let alg1 = (case client_alg client of None \<Rightarrow> ES256 | Some a \<Rightarrow> a);
                      client1 = client\<lparr>client_alg := Some alg1\<rparr>
                  in case util_GenKeyPair env alg1 of
                       Inl err \<Rightarrow> Inl (Errorf ''failed to create key pair for client: %w '' [] (Some err))
                     | Inr signer \<Rightarrow> Inr (client1\<lparr>client_signer := Some signer\<rparr>))
               else Inr client)
            of
              Inl err \<Rightarrow> (Inl err, st)
            | Inr client2 \<Rightarrow>
                (let (client3, st3) = New_verifier op client2 st in (Inr client3, st3))))"

subsection \<open>Locked buffers\<close>

text \<open>
  \<^verbatim>\<open>memguard.NewBufferFromBytes\<close> allocates a buffer, \<^verbatim>\<open>Destroy\<close> wipes and frees the buffer a
  pointer points to, and \<^verbatim>\<open>Bytes\<close> reads it.
\<close>

definition NewBufferFromBytes :: "'b \<Rightarrow> 'b world \<Rightarrow> nat \<times> 'b world" where
  "NewBufferFromBytes bs st =
     (length (buffers st), st\<lparr>buffers := buffers st @ [\<lparr>contents = bs, alive = True\<rparr>]\<rparr>)"

definition Destroy :: "nat \<Rightarrow> 'b world \<Rightarrow> 'b world" where
  "Destroy r st =
     (if r < length (buffers st)
      then st\<lparr>buffers := (buffers st)[r := (buffers st ! r)\<lparr>alive := False\<rparr>]\<rparr>
      else st)"

definition Bytes :: "('b, 'p) client_env \<Rightarrow> 'b world \<Rightarrow> nat \<Rightarrow> 'b" where
  "Bytes env st r =
     (if r < length (buffers st) \<and> alive (buffers st ! r)
      then contents (buffers st ! r) else nil_bytes env)"

text \<open>
  \<^verbatim>\<open>o.Op.RequestTokens(ctx, cicHash)\<close>: the call is logged, and a token the OP returns
  arrives in a locked buffer of its own.
\<close>

definition RequestTokens :: "'b OpenIdProvider \<Rightarrow> string \<Rightarrow> 'b world \<Rightarrow> (error + nat) \<times> 'b world" where
  "RequestTokens op cicHash st =
     (let st1 = st\<lparr>requests := requests st @ [cicHash]\<rparr>
      in case op_RequestTokens op cicHash of
           Inl err \<Rightarrow> (Inl err, st1)
         | Inr tok \<Rightarrow>
             (let (idToken, st2) = NewBufferFromBytes tok st1 in (Inr idToken, st2)))"

subsection \<open>OidcAuth and Auth\<close>

text \<open>
  Lines 270 to 291. The result is the buffer \<^verbatim>\<open>idToken\<close> points to afterwards and the
  verifier checks collected so far.
\<close>

definition OidcAuth_signGQ ::
  "('b, 'p) client_env \<Rightarrow> bool \<Rightarrow> JWK \<Rightarrow> nat \<Rightarrow> Check list \<Rightarrow> 'b world \<Rightarrow>
     (error + nat \<times> Check list) \<times> 'b world" where
  "OidcAuth_signGQ env signGQ opKey idToken verifierChecks st =
     (if signGQ then
        (case Raw_rsa opKey of
           Inl err \<Rightarrow> (Inl (Errorf ''failed to decode public key: %w'' [] (Some err)), st)
         | Inr rsaKey \<Rightarrow>
             (case gq_New256SignerVerifier env rsaKey of
                Inl err \<Rightarrow> (Inl (Errorf ''error creating GQ signer: %w'' [] (Some err)), st)
              | Inr sv \<Rightarrow>
                  (case sv_SignJWT env sv (Bytes env st idToken) of
                     Inl err \<Rightarrow> (Inl (Errorf ''error creating GQ signature: %w'' [] (Some err)), st)
                   | Inr gqToken \<Rightarrow>
                       (let (idToken1, st1) = NewBufferFromBytes gqToken st
                        in (Inr (idToken1, verifierChecks @ [GQOnly]), st1)))))
      else (Inr (idToken, verifierChecks), st))"

text \<open>
  Lines 304 to 309. A nil \<^verbatim>\<open>o.verifier\<close> makes the method call panic; a pointer to no
  object cannot arise in Go and is given the same outcome.
\<close>

definition OidcAuth_verify ::
  "('b, 'p) client_env \<Rightarrow> 'b OpkClient \<Rightarrow> 'p \<Rightarrow> Check list \<Rightarrow> 'b world \<Rightarrow> error + 'p" where
  "OidcAuth_verify env o1 pkt verifierChecks st =
     (case client_verifier o1 of
        None \<Rightarrow> Inl (Panic ''invalid memory address or nil pointer dereference'')
      | Some v \<Rightarrow>
          if v < length (verifiers st) then
            (case verifier_VerifyPKToken env (verifiers st ! v) pkt verifierChecks of
               Some err \<Rightarrow> Inl (Errorf ''error verifying PK Token: %w'' [] (Some err))
             | None \<Rightarrow> Inr pkt)
          else Inl (Panic ''invalid memory address or nil pointer dereference''))"

text \<open>
  Lines 247 to 309: what runs after the \<^verbatim>\<open>defer\<close> statement. \<^verbatim>\<open>Signatures()[0]\<close> panics on a
  message without signatures.
\<close>

definition OidcAuth_after_defer ::
  "('b, 'p) client_env \<Rightarrow> 'b OpkClient \<Rightarrow> crypto_Signer option \<Rightarrow> string option \<Rightarrow> bool \<Rightarrow>
     Claims \<Rightarrow> nat \<Rightarrow> 'b world \<Rightarrow> (error + 'p) \<times> 'b world" where
  "OidcAuth_after_defer env o1 signer alg signGQ cic idToken st =
     (case Claims_Sign env cic signer alg (Bytes env st idToken) of
        Inl err \<Rightarrow> (Inl (Errorf ''error creating cic token: %w'' [] (Some err)), st)
      | Inr cicToken \<Rightarrow>
     (case jws_Parse env (Bytes env st idToken) of
        Inl err \<Rightarrow> (Inl (Errorf ''malformatted ID token: %w'' [] (Some err)), st)
      | Inr idMessage \<Rightarrow>
     (case msg_Signatures idMessage of
        [] \<Rightarrow> (Inl (Panic ''index out of range [0] with length 0''), st)
      | sig0 # sigs \<Rightarrow>
     (let kid = hdr_KeyID sig0 in
      case json_Unmarshal_iss env (msg_Payload idMessage) of
        Inl err \<Rightarrow> (Inl err, st)
      | Inr claims_Issuer \<Rightarrow>
     (case verifier_DiscoverProviderPublicKey env kid claims_Issuer of
        Inl err \<Rightarrow> (Inl (Errorf ''error getting OP public key: %w'' [] (Some err)), st)
      | Inr opKey \<Rightarrow>
     (case OidcAuth_signGQ env signGQ opKey idToken [] st of
        (r, st1) \<Rightarrow>
     (case r of
        Inl err \<Rightarrow> (Inl err, st1)
      | Inr (idToken1, verifierChecks) \<Rightarrow>
     (case pktoken_New env (Bytes env st1 idToken1) cicToken of
        Inl err \<Rightarrow> (Inl (Errorf ''error creating PK Token: %w'' [] (Some err)), st1)
      | Inr pkt0 \<Rightarrow>
     (case pkt_AddJKTHeader env pkt0 opKey of
        Inl err \<Rightarrow> (Inl (Errorf ''error adding JKT header: %w'' [] (Some err)), st1)
      | Inr pkt \<Rightarrow> (OidcAuth_verify env o1 pkt verifierChecks st1, st1))))))))))"

text \<open>
  OidcAuth. \<^verbatim>\<open>defer idToken.Destroy()\<close> evaluates its receiver when the \<^verbatim>\<open>defer\<close> statement
  runs, so on every way out of the rest of the function the buffer destroyed is the one
  \<^verbatim>\<open>RequestTokens\<close> returned, whatever \<^verbatim>\<open>idToken\<close> points to by then.
\<close>

definition OidcAuth ::
  "('b, 'p) client_env \<Rightarrow> 'b OpkClient \<Rightarrow> crypto_Signer option \<Rightarrow> string option \<Rightarrow>
     (string \<rightharpoonup> json) \<Rightarrow> bool \<Rightarrow> 'b world \<Rightarrow> (error + 'p) \<times> 'b world" where
  "OidcAuth env o1 signer alg extraClaims signGQ st =
     (case jwk_PublicKeyOf env signer of
        Inl err \<Rightarrow> (Inl err, st)
      | Inr jwkKey0 \<Rightarrow>
     (case jwk_Set_alg env jwkKey0 alg of
        Inl err \<Rightarrow> (Inl err, st)
      | Inr jwkKey \<Rightarrow>
     (case clientinstance_NewClaims env jwkKey extraClaims of
        Inl err \<Rightarrow>
          (Inl (Errorf ''failed to instantiate client instance claims: %w'' [] (Some err)), st)
      | Inr cic \<Rightarrow>
     (case Claims_Hash env cic of
        Inl err \<Rightarrow> (Inl (Errorf ''error getting nonce: %w'' [] (Some err)), st)
      | Inr commitment \<Rightarrow>
     (case RequestTokens (client_Op o1) commitment st of
        (r, st1) \<Rightarrow>
     (case r of
        Inl err \<Rightarrow> (Inl (Errorf ''error requesting ID Token: %w'' [] (Some err)), st1)
      | Inr idToken \<Rightarrow>
          (case OidcAuth_after_defer env o1 signer alg signGQ cic idToken st1 of
             (res, st2) \<Rightarrow> (res, Destroy idToken st2))))))))"

record AuthOptsStruct =
  authOpts_extraClaims :: "string \<rightharpoonup> json"

type_synonym AuthOpts = "AuthOptsStruct \<Rightarrow> AuthOptsStruct"

text \<open>A nil map and an empty map read alike, so the nil test of the source has no branch here.\<close>

definition WithExtraClaim :: "string \<Rightarrow> string \<Rightarrow> AuthOpts" where
  "WithExtraClaim k v = (\<lambda>a. a\<lparr>authOpts_extraClaims := (authOpts_extraClaims a)(k \<mapsto> JString v)\<rparr>)"

definition Auth ::
  "('b, 'p) client_env \<Rightarrow> 'b OpkClient \<Rightarrow> AuthOpts list \<Rightarrow> 'b world \<Rightarrow> (error + 'p) \<times> 'b world" where
  "Auth env o1 opts st =
     (let authOpts = fold (\<lambda>applyOpt a. applyOpt a) opts \<lparr>authOpts_extraClaims = Map.empty\<rparr>
      in case client_cosP o1 of
           None \<Rightarrow>
             OidcAuth env o1 (client_signer o1) (client_alg o1) (authOpts_extraClaims authOpts)
               (client_signGQ o1) st
         | Some cosP \<Rightarrow>
             if \<not> op_HookHTTPSession (client_Op o1)
             then (Inl (Errorf ''OP supplied does not have support for MFA Cosigner'' [] None), st)
             else
               (let st1 = st\<lparr>hooks := Suc (hooks st)\<rparr>
                in case OidcAuth env o1 (client_signer o1) (client_alg o1)
                          (authOpts_extraClaims authOpts) (client_signGQ o1) st1 of
                     (r, st2) \<Rightarrow>
                       (case r of
                          Inl err \<Rightarrow> (Inl err, st2)
                        | Inr pkt \<Rightarrow> (cosP_RequestToken env cosP (client_signer o1) pkt, st2))))"

subsection \<open>The GQ transform and the PK Token constructor, from the specification\<close>

text \<open>
  The packages \<^verbatim>\<open>gq\<close> and \<^verbatim>\<open>pktoken\<close> are not among the sources. To say what OidcAuth
  returns when it signs with GQ, their three operations are modelled from the
  specification, on tokens in parsed form: the bytes of a token are either the compact
  serialization of a protected header, a payload and a signature, or something else. A
  signature section is either raw signature bytes or the GQ encoding of the original
  header with the proof \<open>(R, S)\<close>.
\<close>

type_synonym protected_header = "(string \<times> string) list"

datatype jws_signature =
    RawSignature bytes
  | GQSignature protected_header bytes bytes

datatype token_bytes =
    CompactJWS protected_header bytes jws_signature
  | NotCompact bytes

record PKToken_spec =
  tok_op_hdr :: protected_header
  tok_cic_hdr :: protected_header
  tok_payload :: bytes
  tok_op_sig :: jws_signature
  tok_cic_sig :: jws_signature
  tok_cos :: "(protected_header \<times> jws_signature) option"

text \<open>
  Modelled from the spec: \<^verbatim>\<open>SignJWT\<close> of package \<^verbatim>\<open>gq\<close>. Section 4.3: the input is an
  RS256-signed compact JWT; the output is a compact JWT with identical payload, the header
  \<^verbatim>\<open>alg\<close> rewritten to \<^verbatim>\<open>GQ256\<close>, and a signature field that encodes the GQ proof \<open>(R, S)\<close> plus
  the original header. Errors: a non-RS256 original header, and whatever the proof
  computation reports. The proof computation itself is the parameter \<open>prove\<close>.
\<close>

definition spec_SignJWT ::
  "(rsa_PublicKey \<Rightarrow> protected_header \<Rightarrow> bytes \<Rightarrow> bytes \<Rightarrow> error + bytes \<times> bytes) \<Rightarrow>
     SignerVerifier \<Rightarrow> token_bytes \<Rightarrow> error + token_bytes" where
  "spec_SignJWT prove sv jwt =
     (case jwt of
        NotCompact bs \<Rightarrow> Inl (External ''malformed JWT'')
      | CompactJWS hdr pl sg \<Rightarrow>
          (case sg of
             GQSignature h R S \<Rightarrow> Inl (External ''malformed RSA signature'')
           | RawSignature sigma \<Rightarrow>
               if map_of hdr ''alg'' \<noteq> Some RS256
               then Inl (External ''non-RS256 original header'')
               else
                 (case sv of
                    SignerVerifier256 key \<Rightarrow>
                      (case prove key hdr pl sigma of
                         Inl err \<Rightarrow> Inl err
                       | Inr (R, S) \<Rightarrow>
                           Inr (CompactJWS (AList.update ''alg'' GQ256 hdr) pl
                                  (GQSignature hdr R S))))))"

text \<open>
  Modelled from the spec: \<^verbatim>\<open>New\<close> of package \<^verbatim>\<open>pktoken\<close>. Section 4.4: splits both inputs,
  asserts their payload sections are byte-equal, stores
  \<^verbatim>\<open>(op_hdr, cic_hdr, payload, op_sig, cic_sig)\<close>.
\<close>

definition spec_pktoken_New :: "token_bytes \<Rightarrow> token_bytes \<Rightarrow> error + PKToken_spec" where
  "spec_pktoken_New idt cicToken =
     (case idt of
        NotCompact bs \<Rightarrow> Inl (External ''malformed ID token'')
      | CompactJWS op_hdr op_pl op_sig \<Rightarrow>
          (case cicToken of
             NotCompact bs \<Rightarrow> Inl (External ''malformed CIC token'')
           | CompactJWS cic_hdr cic_pl cic_sig \<Rightarrow>
               if op_pl \<noteq> cic_pl then Inl (External ''payloads differ'')
               else Inr \<lparr>tok_op_hdr = op_hdr, tok_cic_hdr = cic_hdr, tok_payload = op_pl,
                         tok_op_sig = op_sig, tok_cic_sig = cic_sig, tok_cos = None\<rparr>))"

text \<open>
  Modelled from the spec: \<^verbatim>\<open>AddJKTHeader\<close> of package \<^verbatim>\<open>pktoken\<close>. Section 4.4: computes the
  JWK thumbprint of the OP key and merges \<^verbatim>\<open>jkt\<close> into the OP protected header. The
  thumbprint computation is the parameter \<open>thumbprint\<close>.
\<close>

definition spec_AddJKTHeader ::
  "(JWK \<Rightarrow> error + string) \<Rightarrow> PKToken_spec \<Rightarrow> JWK \<Rightarrow> error + PKToken_spec" where
  "spec_AddJKTHeader thumbprint pkt opKey =
     (case thumbprint opKey of
        Inl err \<Rightarrow> Inl err
      | Inr jkt \<Rightarrow> Inr (pkt\<lparr>tok_op_hdr := AList.update ''jkt'' jkt (tok_op_hdr pkt)\<rparr>))"

text \<open>
  Modelled from the spec: \<^verbatim>\<open>ProviderAlgorithm\<close> of package \<^verbatim>\<open>pktoken\<close>. Section 4.4: returns
  the \<^verbatim>\<open>alg\<close> from the OP header.
\<close>

definition spec_provider_algorithm :: "PKToken_spec \<Rightarrow> string option" where
  "spec_provider_algorithm pkt = map_of (tok_op_hdr pkt) ''alg''"

section \<open>Worked examples: the inputs\<close>

subsection \<open>PK Tokens for VerifyPKToken\<close>

text \<open>
  Modelled from the spec: \<^verbatim>\<open>Compact\<close> and \<^verbatim>\<open>ProviderAlgorithm\<close> of package \<^verbatim>\<open>pktoken\<close> and
  \<^verbatim>\<open>OriginalJWTHeaders\<close> of package \<^verbatim>\<open>gq\<close> (not among the sources), for the examples.
  Section 4.4: \<^verbatim>\<open>compact(section)\<close> returns the \<^verbatim>\<open>hdr64.pl64.sig64\<close> view of the section and
  \<^verbatim>\<open>provider_algorithm()\<close> returns the \<^verbatim>\<open>alg\<close> from the OP header. Section 6: with \<^verbatim>\<open>GQ256\<close> the
  signature field is a base64url-encoded JSON object whose member \<^verbatim>\<open>orig_hdr\<close> is the
  original header.
\<close>

definition ref_Compact :: "PKToken \<Rightarrow> Signature option \<Rightarrow> error + bytes" where
  "ref_Compact pkt sg =
     (case sg of
        None \<Rightarrow> Inl (External ''no signature section'')
      | Some s \<Rightarrow> Inr (sig_protected s @ ''.'' @ sig_payload s @ ''.'' @ sig_signature s))"

definition ref_ProviderAlgorithm :: "PKToken \<Rightarrow> string option" where
  "ref_ProviderAlgorithm pkt =
     (case Op pkt of
        None \<Rightarrow> None
      | Some s \<Rightarrow>
          (case parseJWTSegment ref_lib ref_Unmarshal_map (sig_protected s) of
             Inl err \<Rightarrow> None
           | Inr hdr \<Rightarrow> (case hdr ''alg'' of Some (JString a) \<Rightarrow> Some a | _ \<Rightarrow> None)))"

definition ref_OriginalJWTHeaders :: "bytes \<Rightarrow> error + bytes" where
  "ref_OriginalJWTHeaders jwt =
     (case ref_SplitCompact jwt of
        Inl err \<Rightarrow> Inl err
      | Inr (h, p, sg) \<Rightarrow>
          (case parseJWTSegment ref_lib ref_Unmarshal_map sg of
             Inl err \<Rightarrow> Inl err
           | Inr blob \<Rightarrow>
               (case blob ''orig_hdr'' of
                  Some (JString h0) \<Rightarrow> Inr h0
                | _ \<Rightarrow> Inl (External ''signature is not a GQ signature''))))"

text \<open>
  The payload
  \<^verbatim>\<open>{"iss":"https://op.example","sub":"u1","aud":"test","exp":9999999999,"iat":1,"nonce":"c29tZS1jb21taXRtZW50"}\<close>,
  the same payload with \<^verbatim>\<open>"iss":"https://evil"\<close>, and the payload
  \<^verbatim>\<open>{"iss":"https://op.example","sub":"u1","aud":["a","b"]}\<close>, each in base64url.
\<close>

definition ex_payload :: bytes where
  "ex_payload = ''eyJpc3MiOiJodHRwczovL29wLmV4YW1wbGUiLCJzdWIiOiJ1MSIsImF1ZCI6InRlc3QiLCJleHAiOjk5OTk5OTk5OTksImlhdCI6MSwibm9uY2UiOiJjMjl0WlMxamIyMXRhWFJ0Wlc1MCJ9''"

definition ex_payload_evil :: bytes where
  "ex_payload_evil = ''eyJpc3MiOiJodHRwczovL2V2aWwiLCJzdWIiOiJ1MSIsImF1ZCI6InRlc3QiLCJleHAiOjk5OTk5OTk5OTksImlhdCI6MSwibm9uY2UiOiJjMjl0WlMxamIyMXRhWFJ0Wlc1MCJ9''"

definition ex_payload_audlist :: bytes where
  "ex_payload_audlist = ''eyJpc3MiOiJodHRwczovL29wLmV4YW1wbGUiLCJzdWIiOiJ1MSIsImF1ZCI6WyJhIiwiYiJdfQ''"

text \<open>
  The protected headers \<^verbatim>\<open>{"alg":"ES256","kid":"k1"}\<close>,
  \<^verbatim>\<open>{"alg":"RS256","kid":"k1","typ":"JWT"}\<close> and \<^verbatim>\<open>{"alg":"GQ256","kid":"k1","typ":"JWT"}\<close>, and
  the GQ signature field \<^verbatim>\<open>{"orig_hdr":H,"R":"UlI","S":"U1M"}\<close> with \<^verbatim>\<open>H\<close> the RS256 header in
  base64url.
\<close>

definition ex_hdr_ES256 :: bytes where
  "ex_hdr_ES256 = ''eyJhbGciOiJFUzI1NiIsImtpZCI6ImsxIn0''"

definition ex_hdr_RS256 :: bytes where
  "ex_hdr_RS256 = ''eyJhbGciOiJSUzI1NiIsImtpZCI6ImsxIiwidHlwIjoiSldUIn0''"

definition ex_hdr_GQ256 :: bytes where
  "ex_hdr_GQ256 = ''eyJhbGciOiJHUTI1NiIsImtpZCI6ImsxIiwidHlwIjoiSldUIn0''"

definition ex_sig_GQ256 :: bytes where
  "ex_sig_GQ256 = ''eyJvcmlnX2hkciI6ImV5SmhiR2NpT2lKU1V6STFOaUlzSW10cFpDSTZJbXN4SWl3aWRIbHdJam9pU2xkVUluMCIsIlIiOiJVbEkiLCJTIjoiVTFNIn0''"

text \<open>PK Tokens over a payload: the OP section has the given header and signature.\<close>

definition ex_pkt :: "bytes \<Rightarrow> bytes \<Rightarrow> bytes \<Rightarrow> PKToken" where
  "ex_pkt hdr pl sg =
     \<lparr>Op = Some \<lparr>sig_protected = hdr, sig_payload = pl, sig_signature = sg\<rparr>,
      Cic = Some \<lparr>sig_protected = ''eyJhbGciOiJFUzI1NiIsInJ6IjoiY25vIiwidXBrIjp7Imt0eSI6IkVDIn19'',
                  sig_payload = pl, sig_signature = ''Y2ljc2ln''\<rparr>,
      Cos = None\<rparr>"

definition ex_cic :: Claims where
  "ex_cic = \<lparr>cic_upk = ''{\"kty\":\"EC\"}'', cic_alg = ''ES256'', cic_rz = ''cno'', cic_extra = []\<rparr>"

text \<open>
  Two settings of the cryptographic checks. In \<open>ex_ops_valid\<close> every signature verifies.
  In \<open>ex_ops_cic_only\<close> the CIC signature, which the holder of the client key makes,
  verifies, and the GQ proof does not.
\<close>

definition ex_ops_valid :: pktoken_ops where
  "ex_ops_valid =
     \<lparr>GetCicValues = (\<lambda>pkt. Inr ex_cic),
      cic_Hash = (\<lambda>cic. Inr ''c29tZS1jb21taXRtZW50''),
      Compact = ref_Compact,
      ProviderAlgorithm = ref_ProviderAlgorithm,
      OriginalJWTHeaders = ref_OriginalJWTHeaders,
      VerifyGQSig = (\<lambda>pkt key t. None),
      VerifyCicSig = (\<lambda>pkt. None),
      VerifyCosignerSignature = (\<lambda>pkt. None)\<rparr>"

definition ex_ops_cic_only :: pktoken_ops where
  "ex_ops_cic_only =
     ex_ops_valid\<lparr>VerifyGQSig := (\<lambda>pkt key t. Some (External ''gq: invalid proof''))\<rparr>"

text \<open>
  Two providers with issuer \<^verbatim>\<open>https://op.example\<close>: one whose checks all pass, and one that
  knows no key and verifies nothing.
\<close>

definition ex_provider_valid :: OpenIdProvider_p1 where
  "ex_provider_valid =
     \<lparr>p1_Issuer = ''https://op.example'',
      p1_RequestTokens = (\<lambda>cicHash. Inl (External ''not used'')),
      p1_PublicKey = (\<lambda>headers.
         if hdr_KeyID headers = ''k1'' then Inr (RSAPublicKey \<lparr>rsa_N = 3233, rsa_E = 17\<rparr>)
         else Inl (External ''unknown key'')),
      p1_VerifyCICHash = (\<lambda>idt expectedCICHash. None),
      p1_VerifyNonGQSig = (\<lambda>idt expectedNonce. None)\<rparr>"

definition ex_provider_rejecting :: OpenIdProvider_p1 where
  "ex_provider_rejecting =
     \<lparr>p1_Issuer = ''https://op.example'',
      p1_RequestTokens = (\<lambda>cicHash. Inl (External ''not used'')),
      p1_PublicKey = (\<lambda>headers. Inl (External ''unknown key'')),
      p1_VerifyCICHash = (\<lambda>idt expectedCICHash. Some (External ''commitment mismatch'')),
      p1_VerifyNonGQSig = (\<lambda>idt expectedNonce. Some (External ''crypto/rsa: verification error''))\<rparr>"

definition ex_claims_zero :: OidcClaims where
  "ex_claims_zero =
     \<lparr>Issuer = [], Subject = [], Audience = [], Expiration = 0, IssuedAt = 0, Email = [],
      Nonce = [], Username = [], FirstName = [], LastName = []\<rparr>"

subsection \<open>A JWKS for DiscoverPublicKey\<close>

text \<open>
  The key set has an RSA key \<^verbatim>\<open>k1\<close> with \<^verbatim>\<open>alg\<close> RS256, an elliptic-curve key \<^verbatim>\<open>k2\<close> whose
  \<^verbatim>\<open>alg\<close> member says RS256, and an RSA key \<^verbatim>\<open>k3\<close> with \<^verbatim>\<open>alg\<close> RS384.
\<close>

definition ex_jwks :: "JWK list" where
  "ex_jwks =
     [\<lparr>jwk_KeyID = ''k1'', jwk_Algorithm = ''RS256'', jwk_key = RSA_public \<lparr>rsa_N = 3233, rsa_E = 17\<rparr>\<rparr>,
      \<lparr>jwk_KeyID = ''k2'', jwk_Algorithm = ''RS256'', jwk_key = Other_material ''*ecdsa.PublicKey''\<rparr>,
      \<lparr>jwk_KeyID = ''k3'', jwk_Algorithm = ''RS384'', jwk_key = RSA_public \<lparr>rsa_N = 2773, rsa_E = 17\<rparr>\<rparr>]"

definition ex_net :: oidc_net where
  "ex_net =
     \<lparr>Discover = (\<lambda>issuer.
         if issuer = ''https://op.example''
         then Inr \<lparr>JwksURI = ''https://op.example/jwks''\<rparr>
         else Inl (External ''no such host'')),
      Fetch = (\<lambda>uri.
         if uri = ''https://op.example/jwks'' then Inr ex_jwks
         else Inl (External ''not found''))\<rparr>"

subsection \<open>A client, its provider and its collaborators\<close>

definition ex_idtoken :: token_bytes where
  "ex_idtoken =
     CompactJWS [(''alg'', ''RS256''), (''kid'', ''k1''), (''typ'', ''JWT'')]
       ''{\"iss\":\"https://op.example\",\"sub\":\"u1\"}''
       (RawSignature ''rsa-signature-of-the-op'')"

definition ex_op :: "token_bytes OpenIdProvider" where
  "ex_op =
     \<lparr>op_RequestTokens = (\<lambda>cicHash. Inr ex_idtoken),
      op_Issuer = ''https://op.example'',
      op_CommitmentClaim = ''nonce'',
      op_HookHTTPSession = False\<rparr>"

definition ex_cosP :: CosignerProvider where
  "ex_cosP = \<lparr>cosP_Issuer = ''https://cosigner.example'', cosP_CallbackPath = ''/mfacallback''\<rparr>"

definition ex_env :: "(token_bytes, PKToken_spec) client_env" where
  "ex_env =
     \<lparr>util_GenKeyPair = (\<lambda>alg. Inr (Signer 1)),
      jwk_PublicKeyOf = (\<lambda>signer.
         case signer of
           None \<Rightarrow> Inl (External ''nil signer'')
         | Some k \<Rightarrow> Inr \<lparr>jwk_KeyID = [], jwk_Algorithm = [], jwk_key = Other_material ''*ecdsa.PublicKey''\<rparr>),
      jwk_Set_alg = (\<lambda>key alg.
         case alg of
           None \<Rightarrow> Inl (External ''invalid value for alg key'')
         | Some a \<Rightarrow> Inr (key\<lparr>jwk_Algorithm := a\<rparr>)),
      clientinstance_NewClaims = (\<lambda>key extraClaims.
         Inr \<lparr>cic_upk = ''{\"kty\":\"EC\"}'', cic_alg = jwk_Algorithm key, cic_rz = ''cno'', cic_extra = []\<rparr>),
      Claims_Hash = (\<lambda>cic. Inr ''c29tZS1jb21taXRtZW50''),
      Claims_Sign = (\<lambda>cic signer alg tok.
         case tok of
           NotCompact bs \<Rightarrow> Inl (External ''malformed token'')
         | CompactJWS hdr pl sg \<Rightarrow>
             Inr (CompactJWS [(''alg'', cic_alg cic), (''rz'', cic_rz cic), (''upk'', cic_upk cic)] pl
                    (RawSignature ''signature-of-the-client''))),
      jws_Parse = (\<lambda>tok.
         case tok of
           NotCompact bs \<Rightarrow> Inl (External ''invalid compact serialization'')
         | CompactJWS hdr pl sg \<Rightarrow>
             Inr \<lparr>msg_Signatures =
                    [\<lparr>hdr_Algorithm = (case map_of hdr ''alg'' of Some a \<Rightarrow> a | None \<Rightarrow> []),
                      hdr_KeyID = (case map_of hdr ''kid'' of Some k \<Rightarrow> k | None \<Rightarrow> [])\<rparr>],
                  msg_Payload = pl\<rparr>),
      json_Unmarshal_iss = (\<lambda>data.
         case ref_Unmarshal_map data of
           Inl err \<Rightarrow> Inl err
         | Inr obj \<Rightarrow> string_field obj ''iss'' []),
      verifier_DiscoverProviderPublicKey = (\<lambda>kid issuer.
         if issuer = ''https://op.example'' \<and> kid = ''k1''
         then Inr \<lparr>jwk_KeyID = ''k1'', jwk_Algorithm = ''RS256'',
                   jwk_key = RSA_public \<lparr>rsa_N = 3233, rsa_E = 17\<rparr>\<rparr>
         else Inl (External ''key not found'')),
      gq_New256SignerVerifier = (\<lambda>key. Inr (SignerVerifier256 key)),
      sv_SignJWT = spec_SignJWT (\<lambda>key hdr pl sigma. Inr (''R-of-the-proof'', ''S-of-the-proof'')),
      pktoken_New = spec_pktoken_New,
      pkt_AddJKTHeader = spec_AddJKTHeader (\<lambda>key. Inr ''thumbprint-of-k1''),
      verifier_VerifyPKToken = (\<lambda>v pkt checks.
         if GQOnly \<in> set checks \<and> spec_provider_algorithm pkt \<noteq> Some GQ256
         then Some (External ''non-GQ signatures are not supported'')
         else None),
      cosP_RequestToken = (\<lambda>cosP signer pkt.
         Inr (pkt\<lparr>tok_cos := Some ([(''typ'', ''COS'')], RawSignature ''signature-of-the-cosigner'')\<rparr>)),
      nil_bytes = NotCompact []\<rparr>"

definition ex_world :: "token_bytes world" where
  "ex_world = \<lparr>buffers = [], verifiers = [], requests = [], hooks = 0\<rparr>"

text \<open>A state in which the caller has built a verifier of its own, at address 0.\<close>

definition ex_world_custom :: "token_bytes world" where
  "ex_world_custom = ex_world\<lparr>verifiers := [CustomVerifier ''verifier of the caller'']\<rparr>"

text \<open>The provider-only verifier that \<^verbatim>\<open>New\<close> builds for \<open>ex_op\<close>.\<close>

definition ex_provider_only :: verifier_object where
  "ex_provider_only =
     Verifier (NewProviderVerifier ''https://op.example'' ''nonce'' ProviderVerifierOpts_zero) []"

text \<open>The cosigner-aware verifier that \<^verbatim>\<open>New\<close> builds for \<open>ex_op\<close> and \<open>ex_cosP\<close>.\<close>

definition ex_cosigner_aware :: verifier_object where
  "ex_cosigner_aware =
     Verifier (NewProviderVerifier ''https://op.example'' ''nonce'' ProviderVerifierOpts_zero)
       [WithCosignerVerifiers [NewCosignerVerifier ''https://cosigner.example'' CosignerVerifierOpts_zero]]"

text \<open>A client as \<^verbatim>\<open>New\<close> leaves it, with its verifier at address 0 of \<open>ex_world_client\<close>.\<close>

definition ex_client :: "bool \<Rightarrow> CosignerProvider option \<Rightarrow> token_bytes OpkClient" where
  "ex_client signGQ cosP =
     \<lparr>client_Op = ex_op, client_cosP = cosP, client_signer = Some (Signer 1),
      client_alg = Some ''ES256'', client_signGQ = signGQ, client_verifier = Some 0\<rparr>"

definition ex_world_client :: "token_bytes world" where
  "ex_world_client = ex_world\<lparr>verifiers := [ex_provider_only]\<rparr>"

text \<open>The GQ-transformed ID token and the PK Token built from it.\<close>

definition ex_gqtoken :: token_bytes where
  "ex_gqtoken =
     CompactJWS [(''alg'', ''GQ256''), (''kid'', ''k1''), (''typ'', ''JWT'')]
       ''{\"iss\":\"https://op.example\",\"sub\":\"u1\"}''
       (GQSignature [(''alg'', ''RS256''), (''kid'', ''k1''), (''typ'', ''JWT'')]
          ''R-of-the-proof'' ''S-of-the-proof'')"

definition ex_pktoken_gq :: PKToken_spec where
  "ex_pktoken_gq =
     \<lparr>tok_op_hdr = [(''alg'', ''GQ256''), (''kid'', ''k1''), (''typ'', ''JWT''), (''jkt'', ''thumbprint-of-k1'')],
      tok_cic_hdr = [(''alg'', ''ES256''), (''rz'', ''cno''), (''upk'', ''{\"kty\":\"EC\"}'')],
      tok_payload = ''{\"iss\":\"https://op.example\",\"sub\":\"u1\"}'',
      tok_op_sig = GQSignature [(''alg'', ''RS256''), (''kid'', ''k1''), (''typ'', ''JWT'')]
                     ''R-of-the-proof'' ''S-of-the-proof'',
      tok_cic_sig = RawSignature ''signature-of-the-client'',
      tok_cos = None\<rparr>"

section \<open>Properties of the verification side\<close>

subsection \<open>ExtractClaim and the audience claim\<close>

lemma ExtractClaim_Inr_iff:
  "ExtractClaim lib idt claimName = Inr s \<longleftrightarrow>
     (\<exists>h p sg payload. SplitCompact lib idt = Inr (h, p, sg) \<and>
        parseJWTSegment lib (Unmarshal_map lib) p = Inr payload \<and>
        payload claimName = Some (JString s))"
  by (auto simp: ExtractClaim_def split: sum.splits option.splits json.splits prod.splits)

lemma ExtractClaim_decoded:
  assumes "SplitCompact lib idt = Inr (h, p, sg)"
      and "parseJWTSegment lib (Unmarshal_map lib) p = Inr payload"
  shows "ExtractClaim lib idt claimName =
     (case payload claimName of
        None \<Rightarrow> Inl (Errorf ''claim '%s' missing from payload'' [claimName] None)
      | Some (JString s) \<Rightarrow> Inr s
      | Some v \<Rightarrow> Inl (Errorf ''expected claim '%s' to be a string, was %T'' [claimName, go_type v] None))"
  using assms by (simp add: ExtractClaim_def split: option.splits json.splits)

lemma audList_loop_strings: "audList_loop (map JString ts) acc = Inr (acc @ ts)"
  by (induction ts arbitrary: acc) auto

text \<open>
  Claim C4, as amended. For every compact JWT and claim name, ExtractClaim returns the
  value of the claim exactly when the token splits, its payload decodes and the claim is
  a JSON string; a missing claim and a claim of any other type, an \<^verbatim>\<open>aud\<close> array included, give
  the two errors of the source. Accepting \<^verbatim>\<open>aud\<close> as a string or as an array of strings
  joined by commas is what \<^verbatim>\<open>OidcClaims.UnmarshalJSON\<close> does.
\<close>

theorem ExtractClaim_strings_only:
  "(ExtractClaim lib idt claimName = Inr s \<longleftrightarrow>
      (\<exists>h p sg payload. SplitCompact lib idt = Inr (h, p, sg) \<and>
         parseJWTSegment lib (Unmarshal_map lib) p = Inr payload \<and>
         payload claimName = Some (JString s)))
   \<and> (\<forall>h p sg payload. SplitCompact lib idt = Inr (h, p, sg) \<longrightarrow>
         parseJWTSegment lib (Unmarshal_map lib) p = Inr payload \<longrightarrow>
         ExtractClaim lib idt claimName =
           (case payload claimName of
              None \<Rightarrow> Inl (Errorf ''claim '%s' missing from payload'' [claimName] None)
            | Some (JString s) \<Rightarrow> Inr s
            | Some v \<Rightarrow>
                Inl (Errorf ''expected claim '%s' to be a string, was %T''
                       [claimName, go_type v] None)))
   \<and> (Unmarshal_aux lib data id0 = Inr (JString t, id1) \<longrightarrow>
         UnmarshalJSON lib id0 data = Inr (id1\<lparr>Audience := t\<rparr>))
   \<and> (Unmarshal_aux lib data id0 = Inr (JArray (map JString ts), id1) \<longrightarrow>
         UnmarshalJSON lib id0 data = Inr (id1\<lparr>Audience := strings_Join ts '',''\<rparr>))"
proof (intro conjI allI impI)
  show "ExtractClaim lib idt claimName = Inr s \<longleftrightarrow>
      (\<exists>h p sg payload. SplitCompact lib idt = Inr (h, p, sg) \<and>
         parseJWTSegment lib (Unmarshal_map lib) p = Inr payload \<and>
         payload claimName = Some (JString s))"
    by (rule ExtractClaim_Inr_iff)
next
  fix h p sg payload
  assume "SplitCompact lib idt = Inr (h, p, sg)"
     and "parseJWTSegment lib (Unmarshal_map lib) p = Inr payload"
  then show "ExtractClaim lib idt claimName =
           (case payload claimName of
              None \<Rightarrow> Inl (Errorf ''claim '%s' missing from payload'' [claimName] None)
            | Some (JString s) \<Rightarrow> Inr s
            | Some v \<Rightarrow>
                Inl (Errorf ''expected claim '%s' to be a string, was %T''
                       [claimName, go_type v] None))"
    by (rule ExtractClaim_decoded)
next
  assume "Unmarshal_aux lib data id0 = Inr (JString t, id1)"
  then show "UnmarshalJSON lib id0 data = Inr (id1\<lparr>Audience := t\<rparr>)"
    by (simp add: UnmarshalJSON_def)
next
  assume "Unmarshal_aux lib data id0 = Inr (JArray (map JString ts), id1)"
  then show "UnmarshalJSON lib id0 data = Inr (id1\<lparr>Audience := strings_Join ts '',''\<rparr>)"
    by (simp add: UnmarshalJSON_def audList_loop_strings)
qed

text \<open>
  Claim C4 as stated fails: for the token with payload
  \<^verbatim>\<open>{"iss":"https://op.example","sub":"u1","aud":["a","b"]}\<close> ExtractClaim does not return
  \<^verbatim>\<open>a,b\<close> for \<^verbatim>\<open>aud\<close>; it returns the error for a claim that is not a string.
\<close>

theorem ExtractClaim_aud_array_rejected:
  "ExtractClaim ref_lib (ex_hdr_RS256 @ ''.'' @ ex_payload_audlist @ ''.c2ln'') ''aud'' =
     Inl (Errorf ''expected claim '%s' to be a string, was %T'' [''aud'', ''[]interface {}''] None)"
  by code_simp

text \<open>
  The amended claim at concrete inputs: a token whose \<^verbatim>\<open>aud\<close> is the string \<^verbatim>\<open>test\<close>, and
  two payloads decoded by \<^verbatim>\<open>OidcClaims.UnmarshalJSON\<close>.
\<close>

theorem ExtractClaim_strings_only_witness:
  "ExtractClaim ref_lib (ex_hdr_RS256 @ ''.'' @ ex_payload @ ''.c2ln'') ''aud'' = Inr ''test''
   \<and> (\<exists>h p sg payload.
         SplitCompact ref_lib (ex_hdr_RS256 @ ''.'' @ ex_payload @ ''.c2ln'') = Inr (h, p, sg) \<and>
         parseJWTSegment ref_lib (Unmarshal_map ref_lib) p = Inr payload \<and>
         payload ''aud'' = Some (JString ''test'') \<and>
         ExtractClaim ref_lib (ex_hdr_RS256 @ ''.'' @ ex_payload @ ''.c2ln'') ''sub'' =
           (case payload ''sub'' of
              None \<Rightarrow> Inl (Errorf ''claim '%s' missing from payload'' [''sub''] None)
            | Some (JString s) \<Rightarrow> Inr s
            | Some v \<Rightarrow>
                Inl (Errorf ''expected claim '%s' to be a string, was %T'' [''sub'', go_type v] None)))
   \<and> UnmarshalJSON ref_lib ex_claims_zero ''{\"sub\":\"u1\",\"aud\":\"test\"}'' =
        Inr (ex_claims_zero\<lparr>Subject := ''u1'', Audience := ''test''\<rparr>)
   \<and> UnmarshalJSON ref_lib ex_claims_zero ''{\"sub\":\"u1\",\"aud\":[\"a\",\"b\"]}'' =
        Inr (ex_claims_zero\<lparr>Subject := ''u1'', Audience := ''a,b''\<rparr>)"
proof -
  let ?tok = "ex_hdr_RS256 @ ''.'' @ ex_payload @ ''.c2ln''"
  have r: "ExtractClaim ref_lib ?tok ''aud'' = Inr ''test''"
    by code_simp
  have a1: "Unmarshal_aux ref_lib ''{\"sub\":\"u1\",\"aud\":\"test\"}'' ex_claims_zero =
              Inr (JString ''test'', ex_claims_zero\<lparr>Subject := ''u1''\<rparr>)"
    by code_simp
  have a2: "Unmarshal_aux ref_lib ''{\"sub\":\"u1\",\"aud\":[\"a\",\"b\"]}'' ex_claims_zero =
              Inr (JArray (map JString [''a'', ''b'']), ex_claims_zero\<lparr>Subject := ''u1''\<rparr>)"
    by code_simp
  have j: "strings_Join [''a'', ''b''] '','' = ''a,b''"
    by simp
  note T = ExtractClaim_strings_only
    [of ref_lib ?tok "''aud''" "''test''" "''{\"sub\":\"u1\",\"aud\":\"test\"}''" ex_claims_zero
        "''test''" "ex_claims_zero\<lparr>Subject := ''u1''\<rparr>"]
  note U = ExtractClaim_strings_only
    [of ref_lib ?tok "''sub''" "''test''" "''{\"sub\":\"u1\",\"aud\":[\"a\",\"b\"]}''" ex_claims_zero
        "''test''" "ex_claims_zero\<lparr>Subject := ''u1''\<rparr>" "[''a'', ''b'']"]
  from T r obtain h p sg payload where
    d: "SplitCompact ref_lib ?tok = Inr (h, p, sg)"
       "parseJWTSegment ref_lib (Unmarshal_map ref_lib) p = Inr payload"
       "payload ''aud'' = Some (JString ''test'')"
    by blast
  from U d(1,2) have s: "ExtractClaim ref_lib ?tok ''sub'' =
           (case payload ''sub'' of
              None \<Rightarrow> Inl (Errorf ''claim '%s' missing from payload'' [''sub''] None)
            | Some (JString s) \<Rightarrow> Inr s
            | Some v \<Rightarrow>
                Inl (Errorf ''expected claim '%s' to be a string, was %T'' [''sub'', go_type v] None))"
    by blast
  from T a1 have u1: "UnmarshalJSON ref_lib ex_claims_zero ''{\"sub\":\"u1\",\"aud\":\"test\"}'' =
        Inr (ex_claims_zero\<lparr>Subject := ''u1'', Audience := ''test''\<rparr>)"
    by simp
  from U a2 j have u2: "UnmarshalJSON ref_lib ex_claims_zero ''{\"sub\":\"u1\",\"aud\":[\"a\",\"b\"]}'' =
        Inr (ex_claims_zero\<lparr>Subject := ''u1'', Audience := ''a,b''\<rparr>)"
    by simp
  from r d s u1 u2 show ?thesis
    by blast
qed

subsection \<open>VerifyPKToken\<close>

lemma VerifyPKToken_None_iff:
  "VerifyPKToken lib ops pkt provider = None \<longleftrightarrow>
     (\<exists>cic commitment idt alg.
        GetCicValues ops pkt = Inr cic \<and> cic_Hash ops cic = Inr commitment \<and>
        Compact ops pkt (Op pkt) = Inr idt \<and>
        ExtractClaim lib idt ''iss'' = Inr (p1_Issuer provider) \<and>
        ProviderAlgorithm ops pkt = Some alg \<and>
        VerifyPKToken_switch lib ops pkt provider idt commitment alg = None \<and>
        VerifyPKToken_tail ops pkt = None)"
  by (auto simp: VerifyPKToken_def split: sum.splits option.splits if_splits)


text \<open>
  Under an algorithm other than GQ256 and RS256 no check of the switch runs: whether
  VerifyPKToken returns nil depends on the issuer, the CIC signature and the cosigner
  signature alone.
\<close>

lemma VerifyPKToken_other_alg:
  assumes "ProviderAlgorithm ops pkt = Some alg" and "alg \<noteq> GQ256" and "alg \<noteq> RS256"
  shows "VerifyPKToken lib ops pkt provider = None \<longleftrightarrow>
     (\<exists>cic commitment idt.
        GetCicValues ops pkt = Inr cic \<and> cic_Hash ops cic = Inr commitment \<and>
        Compact ops pkt (Op pkt) = Inr idt \<and>
        ExtractClaim lib idt ''iss'' = Inr (p1_Issuer provider) \<and>
        VerifyPKToken_tail ops pkt = None)"
  using assms by (simp add: VerifyPKToken_None_iff VerifyPKToken_switch_def)

text \<open>
  Claim C2, at the failing input. The PK Token has the OP protected header
  \<^verbatim>\<open>{"alg":"ES256","kid":"k1"}\<close>, the issuer the provider expects and a CIC signature that
  verifies. The provider knows no key, verifies no RSA signature and no commitment, and no
  GQ proof verifies. VerifyPKToken returns nil. The same token under the header
  \<^verbatim>\<open>{"alg":"RS256","kid":"k1","typ":"JWT"}\<close> is rejected.
\<close>

theorem VerifyPKToken_accepts_ES256:
  "ProviderAlgorithm ex_ops_cic_only (ex_pkt ex_hdr_ES256 ex_payload ''c2ln'') = Some ''ES256''
   \<and> VerifyPKToken ref_lib ex_ops_cic_only (ex_pkt ex_hdr_ES256 ex_payload ''c2ln'')
        ex_provider_rejecting = None
   \<and> VerifyPKToken ref_lib ex_ops_cic_only (ex_pkt ex_hdr_RS256 ex_payload ''c2ln'')
        ex_provider_rejecting =
        Some (Errorf ''failed to verify signature from OIDC provider: %w'' []
                (Some (External ''crypto/rsa: verification error'')))"
  by code_simp



text \<open>
  Claim C7. For every PK Token and provider: if the \<^verbatim>\<open>iss\<close> claim read from the token's OP
  section differs from \<^verbatim>\<open>provider.Issuer()\<close>, VerifyPKToken does not return nil, and once the
  CIC values and their hash have been obtained the error it returns is the issuer
  mismatch.
\<close>

theorem VerifyPKToken_issuer_mismatch:
  assumes "Compact ops pkt (Op pkt) = Inr idt"
      and "ExtractClaim lib idt ''iss'' = Inr iss"
      and "iss \<noteq> p1_Issuer provider"
  shows "VerifyPKToken lib ops pkt provider \<noteq> None \<and>
         (\<forall>cic commitment.
            GetCicValues ops pkt = Inr cic \<longrightarrow> cic_Hash ops cic = Inr commitment \<longrightarrow>
            VerifyPKToken lib ops pkt provider =
              Some (Errorf ''expected token to have issuer %s, got %s''
                      [p1_Issuer provider, iss] None))"
  using assms
  by (auto simp: VerifyPKToken_def split: sum.splits)

text \<open>
  Claim C7 at a concrete input: the GQ256 token of the examples with \<^verbatim>\<open>iss\<close> changed to
  \<^verbatim>\<open>https://evil\<close>, every signature check passing.
\<close>

theorem VerifyPKToken_issuer_mismatch_witness:
  "Compact ex_ops_valid (ex_pkt ex_hdr_GQ256 ex_payload_evil ex_sig_GQ256)
       (Op (ex_pkt ex_hdr_GQ256 ex_payload_evil ex_sig_GQ256)) =
     Inr (ex_hdr_GQ256 @ ''.'' @ ex_payload_evil @ ''.'' @ ex_sig_GQ256)
   \<and> ExtractClaim ref_lib (ex_hdr_GQ256 @ ''.'' @ ex_payload_evil @ ''.'' @ ex_sig_GQ256) ''iss'' =
       Inr ''https://evil''
   \<and> ''https://evil'' \<noteq> p1_Issuer ex_provider_valid
   \<and> VerifyPKToken ref_lib ex_ops_valid (ex_pkt ex_hdr_GQ256 ex_payload_evil ex_sig_GQ256)
       ex_provider_valid =
       Some (Errorf ''expected token to have issuer %s, got %s''
               [''https://op.example'', ''https://evil''] None)"
proof -
  let ?pkt = "ex_pkt ex_hdr_GQ256 ex_payload_evil ex_sig_GQ256"
  let ?idt = "ex_hdr_GQ256 @ ''.'' @ ex_payload_evil @ ''.'' @ ex_sig_GQ256"
  have c: "Compact ex_ops_valid ?pkt (Op ?pkt) = Inr ?idt"
    by code_simp
  have e: "ExtractClaim ref_lib ?idt ''iss'' = Inr ''https://evil''"
    by code_simp
  have n: "''https://evil'' \<noteq> p1_Issuer ex_provider_valid"
    by (simp add: ex_provider_valid_def)
  have g: "GetCicValues ex_ops_valid ?pkt = Inr ex_cic"
          "cic_Hash ex_ops_valid ex_cic = Inr ''c29tZS1jb21taXRtZW50''"
    by (simp_all add: ex_ops_valid_def)
  have i: "p1_Issuer ex_provider_valid = ''https://op.example''"
    by (simp add: ex_provider_valid_def)
  from VerifyPKToken_issuer_mismatch [OF c e n] g i
  have "VerifyPKToken ref_lib ex_ops_valid ?pkt ex_provider_valid =
       Some (Errorf ''expected token to have issuer %s, got %s''
               [''https://op.example'', ''https://evil''] None)"
    by simp
  with c e n show ?thesis
    by blast
qed

subsection \<open>DiscoverPublicKey\<close>

lemma LookupKeyID_None_iff: "LookupKeyID jwks kid = None \<longleftrightarrow> kid \<notin> jwk_KeyID ` set jwks"
  by (auto simp: LookupKeyID_def find_None_iff)

lemma LookupKeyID_Some: "LookupKeyID jwks kid = Some key \<Longrightarrow> key \<in> set jwks \<and> jwk_KeyID key = kid"
  by (auto simp: LookupKeyID_def find_Some_iff)

text \<open>
  Claim C8, as amended. For every kid and issuer: DiscoverPublicKey fails when discovery
  or the fetch of the JWKS fails, when no key of the JWKS has the kid, when the key found
  for the kid does not have algorithm RS256, and when the key found has algorithm RS256
  but its key material is not an RSA public key; otherwise it returns the RSA public key
  of the key found, which is a key of the JWKS with that kid.
\<close>

theorem DiscoverPublicKey_outcomes:
  "(\<forall>err. Discover net issuer = Inl err \<longrightarrow>
      DiscoverPublicKey net headers issuer =
        Inl (Errorf ''failed to call OIDC discovery endpoint: %w'' [] (Some err)))
   \<and> (\<forall>discConf err. Discover net issuer = Inr discConf \<longrightarrow>
        Fetch net (JwksURI discConf) = Inl err \<longrightarrow>
        DiscoverPublicKey net headers issuer =
          Inl (Errorf ''failed to fetch to JWKS: %w'' [] (Some err)))
   \<and> (\<forall>discConf jwks. Discover net issuer = Inr discConf \<longrightarrow>
        Fetch net (JwksURI discConf) = Inr jwks \<longrightarrow>
        (hdr_KeyID headers \<notin> jwk_KeyID ` set jwks \<longrightarrow>
           DiscoverPublicKey net headers issuer =
             Inl (Errorf ''key %q isn't in JWKS'' [hdr_KeyID headers] None))
        \<and> (\<forall>key. LookupKeyID jwks (hdr_KeyID headers) = Some key \<longrightarrow>
             key \<in> set jwks \<and> jwk_KeyID key = hdr_KeyID headers
             \<and> (jwk_Algorithm key \<noteq> RS256 \<longrightarrow>
                  DiscoverPublicKey net headers issuer =
                    Inl (Errorf ''expected alg to be RS256 in JWK with kid %q for OP %q, got %q''
                           [hdr_KeyID headers, issuer, jwk_Algorithm key] None))
             \<and> (\<forall>k. jwk_Algorithm key = RS256 \<longrightarrow> jwk_key key = RSA_public k \<longrightarrow>
                  DiscoverPublicKey net headers issuer = Inr (RSAPublicKey k))
             \<and> (\<forall>ty. jwk_Algorithm key = RS256 \<longrightarrow> jwk_key key = Other_material ty \<longrightarrow>
                  (\<exists>err. DiscoverPublicKey net headers issuer =
                     Inl (Errorf ''failed to decode public key: %w'' [] (Some err))))))"
proof (intro conjI allI impI)
  fix err assume "Discover net issuer = Inl err"
  then show "DiscoverPublicKey net headers issuer =
        Inl (Errorf ''failed to call OIDC discovery endpoint: %w'' [] (Some err))"
    by (simp add: DiscoverPublicKey_def)
next
  fix discConf err
  assume "Discover net issuer = Inr discConf" "Fetch net (JwksURI discConf) = Inl err"
  then show "DiscoverPublicKey net headers issuer =
          Inl (Errorf ''failed to fetch to JWKS: %w'' [] (Some err))"
    by (simp add: DiscoverPublicKey_def)
next
  fix discConf jwks
  assume "Discover net issuer = Inr discConf" "Fetch net (JwksURI discConf) = Inr jwks"
     and "hdr_KeyID headers \<notin> jwk_KeyID ` set jwks"
  then show "DiscoverPublicKey net headers issuer =
             Inl (Errorf ''key %q isn't in JWKS'' [hdr_KeyID headers] None)"
    using LookupKeyID_None_iff [of jwks "hdr_KeyID headers"]
    by (simp add: DiscoverPublicKey_def Let_def)
next
  fix discConf jwks key
  assume "LookupKeyID jwks (hdr_KeyID headers) = Some key"
  then show "key \<in> set jwks" "jwk_KeyID key = hdr_KeyID headers"
    by (simp_all add: LookupKeyID_Some)
next
  fix discConf jwks key
  assume "Discover net issuer = Inr discConf" "Fetch net (JwksURI discConf) = Inr jwks"
     and "LookupKeyID jwks (hdr_KeyID headers) = Some key" "jwk_Algorithm key \<noteq> RS256"
  then show "DiscoverPublicKey net headers issuer =
                    Inl (Errorf ''expected alg to be RS256 in JWK with kid %q for OP %q, got %q''
                           [hdr_KeyID headers, issuer, jwk_Algorithm key] None)"
    by (simp add: DiscoverPublicKey_def Let_def)
next
  fix discConf jwks key k
  assume "Discover net issuer = Inr discConf" "Fetch net (JwksURI discConf) = Inr jwks"
     and "LookupKeyID jwks (hdr_KeyID headers) = Some key" "jwk_Algorithm key = RS256"
         "jwk_key key = RSA_public k"
  then show "DiscoverPublicKey net headers issuer = Inr (RSAPublicKey k)"
    by (simp add: DiscoverPublicKey_def Let_def Raw_rsa_def)
next
  fix discConf jwks key ty
  assume "Discover net issuer = Inr discConf" "Fetch net (JwksURI discConf) = Inr jwks"
     and "LookupKeyID jwks (hdr_KeyID headers) = Some key" "jwk_Algorithm key = RS256"
         "jwk_key key = Other_material ty"
  then show "\<exists>err. DiscoverPublicKey net headers issuer =
                     Inl (Errorf ''failed to decode public key: %w'' [] (Some err))"
    by (simp add: DiscoverPublicKey_def Let_def Raw_rsa_def)
qed

text \<open>
  Claim C8 as stated fails: the JWKS of the examples has a key with kid \<^verbatim>\<open>k2\<close> and algorithm
  RS256 whose material is an elliptic-curve key; DiscoverPublicKey does not return an RSA
  public key for \<^verbatim>\<open>k2\<close>, it fails.
\<close>

theorem DiscoverPublicKey_mislabelled_key:
  "LookupKeyID ex_jwks ''k2'' =
     Some \<lparr>jwk_KeyID = ''k2'', jwk_Algorithm = RS256, jwk_key = Other_material ''*ecdsa.PublicKey''\<rparr>
   \<and> DiscoverPublicKey ex_net \<lparr>hdr_Algorithm = ''RS256'', hdr_KeyID = ''k2''\<rparr> ''https://op.example'' =
       Inl (Errorf ''failed to decode public key: %w'' []
              (Some (External ''cannot assign *ecdsa.PublicKey to *rsa.PublicKey'')))"
  by code_simp

text \<open>
  The amended claim at concrete inputs: the four kids \<^verbatim>\<open>k1\<close> (returned), \<^verbatim>\<open>k3\<close> (not RS256),
  \<^verbatim>\<open>k4\<close> (absent) and \<^verbatim>\<open>k2\<close> (not an RSA key), and an issuer whose discovery fails.
\<close>

theorem DiscoverPublicKey_outcomes_witness:
  "DiscoverPublicKey ex_net \<lparr>hdr_Algorithm = ''RS256'', hdr_KeyID = ''k1''\<rparr> ''https://op.example'' =
     Inr (RSAPublicKey \<lparr>rsa_N = 3233, rsa_E = 17\<rparr>)
   \<and> DiscoverPublicKey ex_net \<lparr>hdr_Algorithm = ''RS256'', hdr_KeyID = ''k3''\<rparr> ''https://op.example'' =
       Inl (Errorf ''expected alg to be RS256 in JWK with kid %q for OP %q, got %q''
              [''k3'', ''https://op.example'', ''RS384''] None)
   \<and> DiscoverPublicKey ex_net \<lparr>hdr_Algorithm = ''RS256'', hdr_KeyID = ''k4''\<rparr> ''https://op.example'' =
       Inl (Errorf ''key %q isn't in JWKS'' [''k4''] None)
   \<and> (\<exists>err. DiscoverPublicKey ex_net \<lparr>hdr_Algorithm = ''RS256'', hdr_KeyID = ''k2''\<rparr> ''https://op.example'' =
       Inl (Errorf ''failed to decode public key: %w'' [] (Some err)))
   \<and> DiscoverPublicKey ex_net \<lparr>hdr_Algorithm = ''RS256'', hdr_KeyID = ''k1''\<rparr> ''https://other.example'' =
       Inl (Errorf ''failed to call OIDC discovery endpoint: %w'' [] (Some (External ''no such host'')))"
proof -
  have d: "Discover ex_net ''https://op.example'' = Inr \<lparr>JwksURI = ''https://op.example/jwks''\<rparr>"
    by (simp add: ex_net_def)
  have d': "Discover ex_net ''https://other.example'' = Inl (External ''no such host'')"
    by (simp add: ex_net_def)
  have f: "Fetch ex_net (JwksURI \<lparr>JwksURI = ''https://op.example/jwks''\<rparr>) = Inr ex_jwks"
    by (simp add: ex_net_def)
  have k1: "LookupKeyID ex_jwks ''k1'' =
      Some \<lparr>jwk_KeyID = ''k1'', jwk_Algorithm = ''RS256'', jwk_key = RSA_public \<lparr>rsa_N = 3233, rsa_E = 17\<rparr>\<rparr>"
    by (simp add: LookupKeyID_def ex_jwks_def)
  have k2: "LookupKeyID ex_jwks ''k2'' =
      Some \<lparr>jwk_KeyID = ''k2'', jwk_Algorithm = ''RS256'', jwk_key = Other_material ''*ecdsa.PublicKey''\<rparr>"
    by (simp add: LookupKeyID_def ex_jwks_def)
  have k3: "LookupKeyID ex_jwks ''k3'' =
      Some \<lparr>jwk_KeyID = ''k3'', jwk_Algorithm = ''RS384'', jwk_key = RSA_public \<lparr>rsa_N = 2773, rsa_E = 17\<rparr>\<rparr>"
    by (simp add: LookupKeyID_def ex_jwks_def)
  have k4: "''k4'' \<notin> jwk_KeyID ` set ex_jwks"
    by (simp add: ex_jwks_def)
  have r1: "DiscoverPublicKey ex_net \<lparr>hdr_Algorithm = ''RS256'', hdr_KeyID = ''k1''\<rparr> ''https://op.example'' =
     Inr (RSAPublicKey \<lparr>rsa_N = 3233, rsa_E = 17\<rparr>)"
    using DiscoverPublicKey_outcomes [of ex_net "''https://op.example''" "\<lparr>hdr_Algorithm = ''RS256'', hdr_KeyID = ''k1''\<rparr>"]
      d f k1 by (simp add: RS256_def)
  have r3: "DiscoverPublicKey ex_net \<lparr>hdr_Algorithm = ''RS256'', hdr_KeyID = ''k3''\<rparr> ''https://op.example'' =
       Inl (Errorf ''expected alg to be RS256 in JWK with kid %q for OP %q, got %q''
              [''k3'', ''https://op.example'', ''RS384''] None)"
    using DiscoverPublicKey_outcomes [of ex_net "''https://op.example''" "\<lparr>hdr_Algorithm = ''RS256'', hdr_KeyID = ''k3''\<rparr>"]
      d f k3 by (simp add: RS256_def)
  have r4: "DiscoverPublicKey ex_net \<lparr>hdr_Algorithm = ''RS256'', hdr_KeyID = ''k4''\<rparr> ''https://op.example'' =
       Inl (Errorf ''key %q isn't in JWKS'' [''k4''] None)"
    using DiscoverPublicKey_outcomes [of ex_net "''https://op.example''" "\<lparr>hdr_Algorithm = ''RS256'', hdr_KeyID = ''k4''\<rparr>"]
      d f k4 by simp
  have r2: "\<exists>err. DiscoverPublicKey ex_net \<lparr>hdr_Algorithm = ''RS256'', hdr_KeyID = ''k2''\<rparr> ''https://op.example'' =
       Inl (Errorf ''failed to decode public key: %w'' [] (Some err))"
    using DiscoverPublicKey_outcomes [of ex_net "''https://op.example''" "\<lparr>hdr_Algorithm = ''RS256'', hdr_KeyID = ''k2''\<rparr>"]
      d f k2 by (simp add: RS256_def)
  have r5: "DiscoverPublicKey ex_net \<lparr>hdr_Algorithm = ''RS256'', hdr_KeyID = ''k1''\<rparr> ''https://other.example'' =
       Inl (Errorf ''failed to call OIDC discovery endpoint: %w'' [] (Some (External ''no such host'')))"
    using DiscoverPublicKey_outcomes [of ex_net "''https://other.example''"] d' by simp
  from r1 r2 r3 r4 r5 show ?thesis
    by blast
qed

section \<open>Properties of the client\<close>

subsection \<open>New\<close>

lemma New_verifier_result:
  "New_verifier op client st = (client', st') \<Longrightarrow>
     \<exists>mid. verifiers st' = verifiers st @ mid @
              [Verifier (NewProviderVerifier (op_Issuer op) (op_CommitmentClaim op) ProviderVerifierOpts_zero) []]
        \<and> client_verifier client' = Some (length (verifiers st @ mid))
        \<and> (mid = [] \<or> mid = [Verifier (NewProviderVerifier (op_Issuer op) (op_CommitmentClaim op) ProviderVerifierOpts_zero)
                  [WithCosignerVerifiers [NewCosignerVerifier (cosP_Issuer (the (client_cosP client))) CosignerVerifierOpts_zero]]])"
  by (auto simp: New_verifier_def verifier_New_def Let_def split: option.splits prod.splits)

lemma New_Inr_New_verifier:
  "New env op opts st = (Inr client, st') \<Longrightarrow> \<exists>c0. New_verifier op c0 st = (client, st')"
  by (auto simp: New_def Let_def split: if_splits sum.splits prod.splits)

text \<open>
  Claim C10. Every client that \<^verbatim>\<open>New\<close> returns has as its verifier the object allocated
  last, which is new (not an address of the state \<^verbatim>\<open>New\<close> started from) and is the
  provider-only verifier \<^verbatim>\<open>verifier.New(providerVerifier)\<close> for the issuer and commitment
  claim of the OP. So no verifier that existed before the call, in particular none
  supplied through \<^verbatim>\<open>WithCustomVerifier\<close>, is the verifier of the returned client.
\<close>

theorem New_verifier_always_provider_only:
  assumes "New env op opts st = (Inr client, st')"
  shows "\<exists>v. client_verifier client = Some v \<and> Suc v = length (verifiers st') \<and>
             length (verifiers st) \<le> v \<and>
             verifiers st' ! v =
               Verifier (NewProviderVerifier (op_Issuer op) (op_CommitmentClaim op) ProviderVerifierOpts_zero) [] \<and>
             take (length (verifiers st)) (verifiers st') = verifiers st \<and>
             (\<forall>u. u < length (verifiers st) \<longrightarrow> client_verifier client \<noteq> Some u)"
proof -
  from assms obtain c0 where "New_verifier op c0 st = (client, st')"
    using New_Inr_New_verifier by blast
  from New_verifier_result [OF this] obtain mid where
    vs: "verifiers st' = verifiers st @ mid @
           [Verifier (NewProviderVerifier (op_Issuer op) (op_CommitmentClaim op) ProviderVerifierOpts_zero) []]"
    and cv: "client_verifier client = Some (length (verifiers st @ mid))"
    by blast
  show ?thesis
    using vs cv by (auto simp: nth_append)
qed

text \<open>
  Claim C10 at a concrete input: the caller's own verifier is at address 0 and is passed
  through \<^verbatim>\<open>WithCustomVerifier\<close>.
\<close>

theorem New_verifier_always_provider_only_witness:
  "\<exists>client st'.
     New ex_env ex_op [WithCustomVerifier (Some 0)] ex_world_custom = (Inr client, st') \<and>
     client_verifier client \<noteq> Some 0 \<and>
     (\<exists>v. client_verifier client = Some v \<and> verifiers st' ! v = ex_provider_only)"
proof -
  obtain client st' where
    run: "New ex_env ex_op [WithCustomVerifier (Some 0)] ex_world_custom = (Inr client, st')"
    by (simp add: New_def New_verifier_def verifier_New_def WithCustomVerifier_def ex_env_def Let_def)
  have l: "length (verifiers ex_world_custom) = 1"
    by (simp add: ex_world_custom_def)
  have p: "Verifier (NewProviderVerifier (op_Issuer ex_op) (op_CommitmentClaim ex_op) ProviderVerifierOpts_zero) []
             = ex_provider_only"
    by (simp add: ex_op_def ex_provider_only_def)
  from New_verifier_always_provider_only [OF run] l p
  have "client_verifier client \<noteq> Some 0 \<and>
     (\<exists>v. client_verifier client = Some v \<and> verifiers st' ! v = ex_provider_only)"
    by auto
  with run show ?thesis
    by blast
qed

text \<open>
  Claim C1, at the failing input: \<^verbatim>\<open>New\<close> with \<^verbatim>\<open>WithCosignerProvider\<close>. The client keeps its
  cosigner provider, two verifiers are allocated, the cosigner-aware one at address 0 and
  the provider-only one at address 1, and the verifier of the client is address 1.
\<close>

theorem New_overwrites_cosigner_verifier:
  "map_sum (\<lambda>err. err) client_cosP
     (fst (New ex_env ex_op [WithCosignerProvider (Some ex_cosP)] ex_world)) = Inr (Some ex_cosP)
   \<and> map_sum (\<lambda>err. err) client_verifier
       (fst (New ex_env ex_op [WithCosignerProvider (Some ex_cosP)] ex_world)) = Inr (Some 1)
   \<and> verifiers (snd (New ex_env ex_op [WithCosignerProvider (Some ex_cosP)] ex_world)) =
       [ex_cosigner_aware, ex_provider_only]"
  by code_simp

subsection \<open>Auth\<close>

text \<open>
  Claim C5. For every client with a cosigner provider whose OP does not implement
  \<^verbatim>\<open>HookHTTPSession\<close>, \<^verbatim>\<open>Auth\<close> returns the error and leaves the state as it was: no call of
  \<^verbatim>\<open>RequestTokens\<close> is logged, no buffer is allocated and no handler is registered.
\<close>

theorem Auth_fails_closed:
  assumes "client_cosP o1 = Some cosP" and "\<not> op_HookHTTPSession (client_Op o1)"
  shows "Auth env o1 opts st =
           (Inl (Errorf ''OP supplied does not have support for MFA Cosigner'' [] None), st)
         \<and> requests (snd (Auth env o1 opts st)) = requests st"
  using assms by (simp add: Auth_def)

text \<open>Claim C5 at a concrete input: the example client with a cosigner provider.\<close>

theorem Auth_fails_closed_witness:
  "client_cosP (ex_client True (Some ex_cosP)) = Some ex_cosP
   \<and> \<not> op_HookHTTPSession (client_Op (ex_client True (Some ex_cosP)))
   \<and> Auth ex_env (ex_client True (Some ex_cosP)) [WithExtraClaim ''k'' ''v''] ex_world_client =
       (Inl (Errorf ''OP supplied does not have support for MFA Cosigner'' [] None), ex_world_client)
   \<and> requests (snd (Auth ex_env (ex_client True (Some ex_cosP)) [WithExtraClaim ''k'' ''v''] ex_world_client)) = []"
proof -
  have a: "client_cosP (ex_client True (Some ex_cosP)) = Some ex_cosP"
    by (simp add: ex_client_def)
  have b: "\<not> op_HookHTTPSession (client_Op (ex_client True (Some ex_cosP)))"
    by (simp add: ex_client_def ex_op_def)
  have r: "requests ex_world_client = []"
    by (simp add: ex_world_client_def ex_world_def)
  from Auth_fails_closed [OF a b, of ex_env "[WithExtraClaim ''k'' ''v'']" ex_world_client] a b r
  show ?thesis
    by simp
qed

subsection \<open>OidcAuth\<close>







text \<open>
  The buffers at every exit of OidcAuth taken after \<^verbatim>\<open>RequestTokens\<close> has returned a token:
  the buffer of that token is destroyed, and a buffer made for a GQ-transformed token is
  alive.
\<close>

lemma OidcAuth_signGQ_buffers:
  "OidcAuth_signGQ env signGQ opKey idToken checks st = (r, st1) \<Longrightarrow>
     requests st1 = requests st \<and> verifiers st1 = verifiers st \<and> hooks st1 = hooks st \<and>
     (buffers st1 = buffers st \<or>
      (signGQ \<and> (\<exists>gqToken. buffers st1 = buffers st @ [\<lparr>contents = gqToken, alive = True\<rparr>])))"
  by (auto simp: OidcAuth_signGQ_def NewBufferFromBytes_def Let_def split: sum.splits if_splits)

lemma OidcAuth_after_defer_buffers:
  assumes "OidcAuth_after_defer env o1 signer alg signGQ cic idToken st = (r, st2)"
  shows "requests st2 = requests st \<and> verifiers st2 = verifiers st \<and> hooks st2 = hooks st \<and>
     (buffers st2 = buffers st \<or>
      (signGQ \<and> (\<exists>gqToken. buffers st2 = buffers st @ [\<lparr>contents = gqToken, alive = True\<rparr>])))"
  using assms
  by (auto simp: OidcAuth_after_defer_def Let_def
           split: sum.splits list.splits prod.splits dest!: OidcAuth_signGQ_buffers)

lemma OidcAuth_buffers_at_exit:
  assumes "OidcAuth env o1 signer alg extraClaims signGQ st = (r, st')"
      and "jwk_PublicKeyOf env signer = Inr jwkKey0"
      and "jwk_Set_alg env jwkKey0 alg = Inr jwkKey"
      and "clientinstance_NewClaims env jwkKey extraClaims = Inr cic"
      and "Claims_Hash env cic = Inr commitment"
      and "op_RequestTokens (client_Op o1) commitment = Inr tok"
  shows "buffers st' = buffers st @ [\<lparr>contents = tok, alive = False\<rparr>] \<or>
         (signGQ \<and> (\<exists>gqToken. buffers st' =
            buffers st @ [\<lparr>contents = tok, alive = False\<rparr>, \<lparr>contents = gqToken, alive = True\<rparr>]))"
proof -
  let ?st1 = "st\<lparr>requests := requests st @ [commitment],
                 buffers := buffers st @ [\<lparr>contents = tok, alive = True\<rparr>]\<rparr>"
  have rt: "RequestTokens (client_Op o1) commitment st = (Inr (length (buffers st)), ?st1)"
    using assms(6) by (simp add: RequestTokens_def NewBufferFromBytes_def Let_def)
  obtain res st2 where
    ad: "OidcAuth_after_defer env o1 signer alg signGQ cic (length (buffers st)) ?st1 = (res, st2)"
    by fastforce
  have fin: "st' = Destroy (length (buffers st)) st2"
    using assms(1-5) rt ad by (simp add: OidcAuth_def)
  from OidcAuth_after_defer_buffers [OF ad]
  have "buffers st2 = buffers ?st1 \<or>
      (signGQ \<and> (\<exists>gqToken. buffers st2 = buffers ?st1 @ [\<lparr>contents = gqToken, alive = True\<rparr>]))"
    by blast
  then show ?thesis
    using fin by (auto simp: Destroy_def nth_append list_update_append)
qed

text \<open>
  Claim C3, at the failing input: OidcAuth with \<^verbatim>\<open>signGQ = true\<close>. On the successful run the
  state ends with two buffers: the one \<^verbatim>\<open>RequestTokens\<close> returned, destroyed, and the one
  holding the GQ-transformed token, still alive. The same holds on the error exit taken
  when the verifier rejects the token.
\<close>

theorem OidcAuth_leaves_GQ_buffer_alive:
  "OidcAuth ex_env (ex_client True None) (Some (Signer 1)) (Some ''ES256'') Map.empty True
     ex_world_client =
     (Inr ex_pktoken_gq,
      ex_world_client\<lparr>buffers := [\<lparr>contents = ex_idtoken, alive = False\<rparr>,
                                   \<lparr>contents = ex_gqtoken, alive = True\<rparr>],
                      requests := [''c29tZS1jb21taXRtZW50'']\<rparr>)
   \<and> OidcAuth (ex_env\<lparr>verifier_VerifyPKToken := (\<lambda>v pkt checks. Some (External ''rejected''))\<rparr>)
       (ex_client True None) (Some (Signer 1)) (Some ''ES256'') Map.empty True ex_world_client =
     (Inl (Errorf ''error verifying PK Token: %w'' [] (Some (External ''rejected''))),
      ex_world_client\<lparr>buffers := [\<lparr>contents = ex_idtoken, alive = False\<rparr>,
                                   \<lparr>contents = ex_gqtoken, alive = True\<rparr>],
                      requests := [''c29tZS1jb21taXRtZW50'']\<rparr>)"
  by code_simp



end
